theory Spec2Isabelle
  imports Complex_Main "HOL-Library.Word"
begin

unbundle bit_operations_syntax

section \<open>Values shared by all components\<close>

text \<open>
  Python text is modelled as \<^typ>\<open>string\<close>: one \<^typ>\<open>char\<close> per code point, for
  code points below 256 (Latin-1). That is exactly the range of an HTTP header value as the
  WSGI layer hands it over, and a restriction for payload texts. Raw request bodies and keys
  are byte lists. Every exception of the source is a value of \<open>error\<close>; \<open>Unmodelled\<close> is
  not a Python exception, it marks an input outside the modelled fragment.
\<close>

datatype error =
    HTTPError | JSONDecodeError | KeyError | TypeError | AttributeError
  | UnboundLocalError | Unmodelled

datatype json =
    JNull | JBool bool | JInt int | JFloat real | JString string
  | JArray "json list" | JObject "(string \<times> json) list"

type_synonym dict = "(string \<times> json) list"

text \<open>Python truthiness of a decoded JSON value (\<open>if x:\<close>).\<close>

fun truthy :: "json \<Rightarrow> bool" where
  "truthy JNull = False"
| "truthy (JBool b) = b"
| "truthy (JInt n) = (n \<noteq> 0)"
| "truthy (JFloat r) = (r \<noteq> 0)"
| "truthy (JString s) = (s \<noteq> [])"
| "truthy (JArray xs) = (xs \<noteq> [])"
| "truthy (JObject kvs) = (kvs \<noteq> [])"

text \<open>\<open>d.get(k)\<close> and \<open>d.get(k, default)\<close>.\<close>

definition dget :: "dict \<Rightarrow> string \<Rightarrow> json option" where
  "dget d k = map_of d k"

definition dget_default :: "dict \<Rightarrow> string \<Rightarrow> json \<Rightarrow> json" where
  "dget_default d k dflt = (case map_of d k of None \<Rightarrow> dflt | Some v \<Rightarrow> v)"

text \<open>Truthiness of \<open>d.get(k)\<close>: an absent key gives \<open>None\<close>, which is falsy.\<close>

definition get_truthy :: "dict \<Rightarrow> string \<Rightarrow> bool" where
  "get_truthy d k = (case map_of d k of None \<Rightarrow> False | Some v \<Rightarrow> truthy v)"

subsection \<open>String operations of the source\<close>

definition startswith :: "string \<Rightarrow> string \<Rightarrow> bool" where
  "startswith s p = (take (length p) s = p)"

definition endswith :: "string \<Rightarrow> string \<Rightarrow> bool" where
  "endswith s p = (length p \<le> length s \<and> drop (length s - length p) s = p)"

text \<open>\<open>p in s\<close> for two strings: \<open>p\<close> occurs in \<open>s\<close> as a contiguous block.\<close>

fun contains :: "string \<Rightarrow> string \<Rightarrow> bool" where
  "contains [] p = (p = [])"
| "contains (c # s) p = (startswith (c # s) p \<or> contains s p)"

text \<open>
  \<open>str.lower()\<close> on Latin-1 code points: A to Z and the accented capitals
  (192 to 222 without the multiplication sign 215) move up by 32.
\<close>

definition lower_char :: "char \<Rightarrow> char" where
  "lower_char c =
     (let n = (of_char c :: nat)
      in if (65 \<le> n \<and> n \<le> 90) \<or> (192 \<le> n \<and> n \<le> 222 \<and> n \<noteq> 215)
         then char_of (n + 32) else c)"

definition lower :: "string \<Rightarrow> string" where
  "lower s = map lower_char s"

text \<open>
  \<open>str.strip()\<close>: the white space of Python among the Latin-1 code points is
  9 to 13, 28 to 32, 133 and 160.
\<close>

definition is_space :: "char \<Rightarrow> bool" where
  "is_space c =
     (let n = (of_char c :: nat)
      in (9 \<le> n \<and> n \<le> 13) \<or> (28 \<le> n \<and> n \<le> 32) \<or> n = 133 \<or> n = 160)"

definition strip :: "string \<Rightarrow> string" where
  "strip s = rev (dropWhile is_space (rev (dropWhile is_space s)))"

section \<open>Assistant client: decoding the response (auth.py, groq\_ask)\<close>

fun dict_set :: "string \<Rightarrow> json \<Rightarrow> dict \<Rightarrow> dict" where
  "dict_set k v [] = [(k, v)]"
| "dict_set k v ((k', v') # d) =
     (if k' = k then (k, v) # d else (k', v') # dict_set k v d)"

definition dict_of_pairs :: "(string \<times> json) list \<Rightarrow> dict" where
  "dict_of_pairs ps = foldl (\<lambda>d (k, v). dict_set k v d) [] ps"

definition is_ws :: "char \<Rightarrow> bool" where
  "is_ws c = (c = CHR '' '' \<or> c = CHR 0x09 \<or> c = CHR 0x0A \<or> c = CHR 0x0D)"

definition skip_ws :: "string \<Rightarrow> string" where
  "skip_ws s = dropWhile is_ws s"

definition is_digit :: "char \<Rightarrow> bool" where
  "is_digit c = (48 \<le> (of_char c :: nat) \<and> (of_char c :: nat) \<le> 57)"

definition digits_value :: "string \<Rightarrow> nat" where
  "digits_value ds = foldl (\<lambda>n c. 10 * n + (of_char c - 48)) 0 ds"

definition hex_value :: "char \<Rightarrow> nat option" where
  "hex_value c =
     (let n = (of_char c :: nat)
      in if 48 \<le> n \<and> n \<le> 57 then Some (n - 48)
         else if 65 \<le> n \<and> n \<le> 70 then Some (n - 55)
         else if 97 \<le> n \<and> n \<le> 102 then Some (n - 87)
         else None)"

definition simple_escape :: "char \<Rightarrow> char option" where
  "simple_escape e =
     (if e = CHR 0x22 then Some (CHR 0x22)
      else if e = CHR 0x5C then Some (CHR 0x5C)
      else if e = CHR ''/'' then Some (CHR ''/'')
      else if e = CHR ''b'' then Some (CHR 0x08)
      else if e = CHR ''f'' then Some (CHR 0x0C)
      else if e = CHR ''n'' then Some (CHR 0x0A)
      else if e = CHR ''r'' then Some (CHR 0x0D)
      else if e = CHR ''t'' then Some (CHR 0x09)
      else None)"

fun scan_string :: "string \<Rightarrow> string \<Rightarrow> error + (string \<times> string)" where
  "scan_string acc [] = Inl JSONDecodeError"
| "scan_string acc (c # s) =
     (if c = CHR 0x22 then Inr (rev acc, s)
      else if c = CHR 0x5C then
        (case s of
           [] \<Rightarrow> Inl JSONDecodeError
         | e # s' \<Rightarrow>
             if e = CHR ''u'' then
               (case s' of
                  h1 # h2 # h3 # h4 # s'' \<Rightarrow>
                    (case (hex_value h1, hex_value h2, hex_value h3, hex_value h4) of
                       (Some a, Some b, Some c', Some d) \<Rightarrow>
                         (let n = ((a * 16 + b) * 16 + c') * 16 + d
                          in if n < 256 then scan_string (char_of n # acc) s''
                             else Inl Unmodelled)
                     | _ \<Rightarrow> Inl JSONDecodeError)
                | _ \<Rightarrow> Inl JSONDecodeError)
             else
               (case simple_escape e of
                  Some ch \<Rightarrow> scan_string (ch # acc) s'
                | None \<Rightarrow> Inl JSONDecodeError))
      else if (of_char c :: nat) < 32 then Inl JSONDecodeError
      else scan_string (c # acc) s)"

definition scan_int :: "string \<Rightarrow> (nat \<times> string) option" where
  "scan_int s =
     (case s of
        [] \<Rightarrow> None
      | c # t \<Rightarrow>
          if c = CHR ''0'' then Some (0, t)
          else if is_digit c
          then Some (digits_value (c # takeWhile is_digit t), dropWhile is_digit t)
          else None)"

definition scan_frac :: "string \<Rightarrow> (string \<times> string) option" where
  "scan_frac s =
     (case s of
        c # t \<Rightarrow>
          if c = CHR ''.'' \<and> takeWhile is_digit t \<noteq> []
          then Some (takeWhile is_digit t, dropWhile is_digit t) else None
      | [] \<Rightarrow> None)"

definition scan_exp :: "string \<Rightarrow> (int \<times> string) option" where
  "scan_exp s =
     (case s of
        c # t \<Rightarrow>
          if c = CHR ''e'' \<or> c = CHR ''E'' then
            (let (sgn, u) =
               (case t of
                  d # t' \<Rightarrow>
                    if d = CHR ''+'' then (1, t')
                    else if d = CHR ''-'' then (- 1, t') else (1, t)
                | [] \<Rightarrow> (1, t))
             in if takeWhile is_digit u \<noteq> []
                then Some (sgn * int (digits_value (takeWhile is_digit u)),
                           dropWhile is_digit u)
                else None)
          else None
      | [] \<Rightarrow> None)"

definition scale10 :: "real \<Rightarrow> int \<Rightarrow> real" where
  "scale10 x e = (if 0 \<le> e then x * 10 ^ nat e else x / 10 ^ nat (- e))"

definition scan_number :: "string \<Rightarrow> (json \<times> string) option" where
  "scan_number s =
     (let (neg, s1) = (case s of c # t \<Rightarrow> if c = CHR ''-'' then (True, t) else (False, s)
                                | [] \<Rightarrow> (False, s))
      in case scan_int s1 of
           None \<Rightarrow> None
         | Some (n, s2) \<Rightarrow>
             (let (fr, s3) = (case scan_frac s2 of None \<Rightarrow> (None, s2)
                                                | Some (ds, r) \<Rightarrow> (Some ds, r));
                  (ex, s4) = (case scan_exp s3 of None \<Rightarrow> (None, s3)
                                               | Some (e, r) \<Rightarrow> (Some e, r))
              in if fr = None \<and> ex = None
                 then Some (JInt (if neg then - int n else int n), s4)
                 else
                   (let ds = (case fr of None \<Rightarrow> [] | Some d \<Rightarrow> d);
                        m = real n + real (digits_value ds) / 10 ^ length ds;
                        v = scale10 m (case ex of None \<Rightarrow> 0 | Some e \<Rightarrow> e)
                    in Some (JFloat (if neg then - v else v), s4))))"

text \<open>
  A number literal is decoded to its exact value. The program holds a float as the nearest
  double: a non-zero literal of magnitude at most \<open>2^-1075\<close> becomes \<open>0.0\<close>, one of
  magnitude at least \<open>2^1024 - 2^970\<close> becomes infinite, and an integer literal of more
  than 4300 digits is refused by the interpreter's digit limit. Such literals are outside
  the modelled fragment; on all others the exact value and the double agree on being
  zero and on being finite.
\<close>

definition double_range :: "real \<Rightarrow> bool" where
  "double_range r = (r = 0 \<or> (1 / 2 ^ 1075 < \<bar>r\<bar> \<and> \<bar>r\<bar> < 2 ^ 1024 - 2 ^ 970))"

definition representable :: "json \<Rightarrow> string \<Rightarrow> bool" where
  "representable v s =
     (case v of
        JFloat r \<Rightarrow> double_range r
      | JInt n \<Rightarrow>
          int (length (takeWhile is_digit
                         (case s of c # t \<Rightarrow> if c = CHR ''-'' then t else s | [] \<Rightarrow> s)))
            \<le> 4300
      | _ \<Rightarrow> True)"

fun parse_value :: "nat \<Rightarrow> string \<Rightarrow> error + (json \<times> string)"
  and parse_items :: "nat \<Rightarrow> json list \<Rightarrow> string \<Rightarrow> error + (json \<times> string)"
  and parse_members :: "nat \<Rightarrow> (string \<times> json) list \<Rightarrow> string \<Rightarrow> error + (json \<times> string)"
where
  "parse_value 0 s = Inl Unmodelled"
| "parse_value (Suc n) s =
     (case s of
        [] \<Rightarrow> Inl JSONDecodeError
      | c # t \<Rightarrow>
          if c = CHR 0x22 then
            (case scan_string [] t of
               Inl e \<Rightarrow> Inl e
             | Inr (str, r) \<Rightarrow> Inr (JString str, r))
          else if c = CHR ''{'' then
            (case skip_ws t of
               [] \<Rightarrow> Inl JSONDecodeError
             | d # r \<Rightarrow>
                 if d = CHR ''}'' then Inr (JObject [], r)
                 else parse_members n [] (d # r))
          else if c = CHR ''['' then
            (case skip_ws t of
               [] \<Rightarrow> Inl JSONDecodeError
             | d # r \<Rightarrow>
                 if d = CHR '']'' then Inr (JArray [], r)
                 else parse_items n [] (d # r))
          else if startswith s ''null'' then Inr (JNull, drop 4 s)
          else if startswith s ''true'' then Inr (JBool True, drop 4 s)
          else if startswith s ''false'' then Inr (JBool False, drop 5 s)
          else if startswith s ''NaN'' \<or> startswith s ''Infinity''
                  \<or> startswith s ''-Infinity'' then Inl Unmodelled
          else
            (case scan_number s of
               Some (v, r) \<Rightarrow> if representable v s then Inr (v, r) else Inl Unmodelled
             | None \<Rightarrow> Inl JSONDecodeError))"
| "parse_items 0 acc s = Inl Unmodelled"
| "parse_items (Suc n) acc s =
     (case parse_value n s of
        Inl e \<Rightarrow> Inl e
      | Inr (v, r) \<Rightarrow>
          (case skip_ws r of
             [] \<Rightarrow> Inl JSONDecodeError
           | d # r' \<Rightarrow>
               if d = CHR '']'' then Inr (JArray (acc @ [v]), r')
               else if d = CHR '','' then parse_items n (acc @ [v]) (skip_ws r')
               else Inl JSONDecodeError))"
| "parse_members 0 acc s = Inl Unmodelled"
| "parse_members (Suc n) acc s =
     (case s of
        [] \<Rightarrow> Inl JSONDecodeError
      | q # t \<Rightarrow>
          if q \<noteq> CHR 0x22 then Inl JSONDecodeError
          else
            (case scan_string [] t of
               Inl e \<Rightarrow> Inl e
             | Inr (k, r) \<Rightarrow>
                 (case skip_ws r of
                    [] \<Rightarrow> Inl JSONDecodeError
                  | c # r1 \<Rightarrow>
                      if c \<noteq> CHR '':'' then Inl JSONDecodeError
                      else
                        (case parse_value n (skip_ws r1) of
                           Inl e \<Rightarrow> Inl e
                         | Inr (v, r2) \<Rightarrow>
                             (case skip_ws r2 of
                                [] \<Rightarrow> Inl JSONDecodeError
                              | d # r3 \<Rightarrow>
                                  if d = CHR ''}''
                                  then Inr (JObject (dict_of_pairs (acc @ [(k, v)])), r3)
                                  else if d = CHR '',''
                                  then parse_members n (acc @ [(k, v)]) (skip_ws r3)
                                  else Inl JSONDecodeError)))))"

definition json_loads :: "string \<Rightarrow> error + json" where
  "json_loads s =
     (case parse_value (2 * length s + 2) (skip_ws s) of
        Inl e \<Rightarrow> Inl e
      | Inr (v, r) \<Rightarrow> if skip_ws r = [] then Inr v else Inl JSONDecodeError)"

definition extract_json :: "string \<Rightarrow> string option" where
  "extract_json text =
     (let s = dropWhile (\<lambda>c. c \<noteq> CHR ''{'') text;
          m = rev (dropWhile (\<lambda>c. c \<noteq> CHR ''}'') (rev s))
      in if m = [] then None else Some m)"

definition groq_ask_parse :: "string \<Rightarrow> error + dict" where
  "groq_ask_parse text =
     (case extract_json text of
        Some m \<Rightarrow>
          (case json_loads m of
             Inl e \<Rightarrow> Inl e
           | Inr (JObject d) \<Rightarrow> Inr d
           | Inr _ \<Rightarrow> Inl Unmodelled)
      | None \<Rightarrow> Inr [(''raw'', JString text)])"

section \<open>Command parser (handlers.py, handle\_issue\_comment)\<close>

definition COMMANDS :: "string list" where
  "COMMANDS = [''/fix'', ''/explain'', ''/improve'', ''/test'', ''/docs'', ''/review'']"

text \<open>\<open>cmd = next((c for c in COMMANDS if c in body.lower()), None)\<close>\<close>

definition parse_command :: "string \<Rightarrow> string option" where
  "parse_command body = find (\<lambda>c. contains (lower body) c) COMMANDS"

section \<open>Outbound calls and the world they reach\<close>

text \<open>
  Every outbound HTTP request of the source is recorded in a trace of \<open>call\<close>s, in the order
  the source issues them. Paths are kept by their shape (\<open>endpoint\<close>), prompts and posted
  markdown by their purpose: their wording does not decide any control flow. What the world
  answers is an \<open>env\<close>: the clock readings of \<open>time.time()\<close>, and for each request either
  a failure (the exception \<open>raise_for_status\<close> raises) or the decoded answer.
\<close>

datatype endpoint =
    EpAccessTokens int
  | EpIssue string int
  | EpIssueComments string int
  | EpIssueLabels string int
  | EpIssues string
  | EpLabels string
  | EpPull string int
  | EpPullFiles string int

datatype prompt =
    AnalyzePR | ReviewFile nat string
  | FixPrompt | ExplainPrompt | ImprovePrompt | TestPrompt | DocsPrompt

datatype post_kind =
    LabelDef nat | AILabels | AnalysisComment
  | ReviewComment real "(string \<times> json \<times> json option) list" "json list"
  | CriticalLabel
  | CommandReply | AlertIssue nat

datatype call =
    TokenExchange int
  | GhGet endpoint
  | GhPost endpoint post_kind
  | GhPatch endpoint dict
  | GroqAsk prompt
  | GroqText prompt

record pr_file =
  filename :: string
  status :: "string option"
  changes :: int
  patch :: string

record env =
  clock_check :: real
  clock_store :: real
  exchange :: "int \<Rightarrow> error + string"
  issue_lookup :: "string \<Rightarrow> int \<Rightarrow> error + dict"
  pull_files :: "string \<Rightarrow> int \<Rightarrow> error + pr_file list"
  post_ok :: "endpoint \<Rightarrow> post_kind \<Rightarrow> bool"
  patch_ok :: "endpoint \<Rightarrow> dict \<Rightarrow> bool"
  assistant :: "prompt \<Rightarrow> error + string"

text \<open>The kinds of call that the properties below single out.\<close>

fun is_post :: "call \<Rightarrow> bool" where
  "is_post (GhPost ep k) = True"
| "is_post other = False"

fun is_patch :: "call \<Rightarrow> bool" where
  "is_patch (GhPatch ep d) = True"
| "is_patch other = False"

fun is_ask :: "call \<Rightarrow> bool" where
  "is_ask (GroqAsk p) = True"
| "is_ask other = False"

text \<open>
  \<open>groq_ask\<close>: the request fails (transport or HTTP status) or yields the response text,
  which is decoded as above. \<open>groq_text\<close> returns the stripped text.
\<close>

definition groq_ask :: "env \<Rightarrow> prompt \<Rightarrow> error + dict" where
  "groq_ask w p = (case assistant w p of Inl e \<Rightarrow> Inl e | Inr text \<Rightarrow> groq_ask_parse text)"

definition groq_text :: "env \<Rightarrow> prompt \<Rightarrow> error + string" where
  "groq_text w p = (case assistant w p of Inl e \<Rightarrow> Inl e | Inr text \<Rightarrow> Inr (strip text))"

section \<open>Credential manager (auth.py, get\_installation\_token)\<close>

record token_entry =
  token :: string
  expires :: real

type_synonym cache = "int \<Rightarrow> token_entry option"

text \<open>
  \<open>now\<close> is the clock at the validity test, \<open>resp\<close> the outcome of the token exchange
  (the token of the answer, or the exception of \<open>raise_for_status\<close> or of
  \<open>data["token"]\<close>), \<open>now'\<close> the clock when the entry is stored. The result is the
  returned token or the exception, the cache afterwards, and the requests made.
\<close>

definition get_installation_token ::
  "cache \<Rightarrow> int \<Rightarrow> real \<Rightarrow> error + string \<Rightarrow> real
     \<Rightarrow> (error + string) \<times> cache \<times> call list" where
  "get_installation_token c installation_id now resp now' =
     (let fresh =
        (case resp of
           Inl e \<Rightarrow> (Inl e, c, [TokenExchange installation_id])
         | Inr tok \<Rightarrow>
             (Inr tok,
              c(installation_id \<mapsto> \<lparr>token = tok, expires = now' + 50 * 60\<rparr>),
              [TokenExchange installation_id]))
      in case c installation_id of
           Some cached \<Rightarrow>
             if expires cached > now + 60 then (Inr (token cached), c, []) else fresh
         | None \<Rightarrow> fresh)"

text \<open>\<open>_token_cache = {}\<close> at start-up, and a sequence of calls for one installation.\<close>

definition empty_token_cache :: cache where
  "empty_token_cache = (\<lambda>i. None)"

fun run_calls ::
  "cache \<Rightarrow> int \<Rightarrow> (real \<times> (error + string) \<times> real) list \<Rightarrow> cache \<times> call list" where
  "run_calls c i [] = (c, [])"
| "run_calls c i ((now, resp, now') # rest) =
     (case get_installation_token c i now resp now' of
        (r, c', tr) \<Rightarrow> (case run_calls c' i rest of (c'', tr') \<Rightarrow> (c'', tr @ tr')))"

definition token_for :: "env \<Rightarrow> cache \<Rightarrow> int \<Rightarrow> (error + string) \<times> cache \<times> call list" where
  "token_for w c installation_id =
     get_installation_token c installation_id (clock_check w) (exchange w installation_id)
       (clock_store w)"

section \<open>Event handlers (handlers.py)\<close>

definition SKIP_AUTHORS :: "string list" where
  "SKIP_AUTHORS = [''dependabot[bot]'', ''renovate[bot]'', ''github-actions[bot]'']"

text \<open>A swallowed \<open>gh_post\<close> (\<open>try: ... except Exception: pass\<close>) only leaves its call.\<close>

definition gh_post :: "env \<Rightarrow> endpoint \<Rightarrow> post_kind \<Rightarrow> error option" where
  "gh_post w ep k = (if post_ok w ep k then None else Some HTTPError)"

subsection \<open>Rendering that can raise\<close>

text \<open>
  The replies are f-strings over the decoded answer. Their text is not modelled, the
  exceptions their evaluation raises are: a method call on a value of the wrong type
  (\<open>AttributeError\<close>), a slice of a value that has none, an unhashable dictionary key
  (\<open>TypeError\<close>).
\<close>

definition py_slice :: "json \<Rightarrow> nat \<Rightarrow> error + json list" where
  "py_slice v n =
     (case v of
        JArray xs \<Rightarrow> Inr (take n xs)
      | JString s \<Rightarrow> Inr (map (\<lambda>c. JString [c]) (take n s))
      | _ \<Rightarrow> Inl TypeError)"

definition sliceable :: "json \<Rightarrow> bool" where
  "sliceable v = (case v of JArray xs \<Rightarrow> True | JString s \<Rightarrow> True | _ \<Rightarrow> False)"

definition is_str :: "json \<Rightarrow> bool" where
  "is_str v = (case v of JString s \<Rightarrow> True | _ \<Rightarrow> False)"

definition hashable :: "json \<Rightarrow> bool" where
  "hashable v = (case v of JArray xs \<Rightarrow> False | JObject d \<Rightarrow> False | _ \<Rightarrow> True)"

fun first_error :: "('a \<Rightarrow> error option) \<Rightarrow> 'a list \<Rightarrow> error option" where
  "first_error f [] = None"
| "first_error f (x # xs) = (case f x of Some e \<Rightarrow> Some e | None \<Rightarrow> first_error f xs)"

text \<open>One turn of the loop of /improve over \<open>imps[:4]\<close>.\<close>

definition render_improvement :: "json \<Rightarrow> error option" where
  "render_improvement imp =
     (case imp of
        JObject d \<Rightarrow>
          if \<not> is_str (dget_default d ''area'' (JString [])) then Some AttributeError
          else if get_truthy d ''example''
                  \<and> \<not> sliceable (dget_default d ''example'' JNull)
          then Some TypeError else None
      | _ \<Rightarrow> Some AttributeError)"

text \<open>One turn of the loop of /test over \<open>tests[:3]\<close>.\<close>

definition render_test :: "json \<Rightarrow> error option" where
  "render_test t =
     (case t of
        JObject d \<Rightarrow>
          if sliceable (dget_default d ''code'' (JString [])) then None else Some TypeError
      | _ \<Rightarrow> Some AttributeError)"

subsection \<open>Issue comments: bot commands\<close>

record comment_event =
  ce_action :: "string option"
  ce_body :: string
  ce_author :: string
  ce_repo :: string
  ce_issue_number :: int
  ce_installation :: int

text \<open>
  The branch of the recognised command: its assistant call, and whether a reply text
  results (\<open>if response:\<close>) or rendering raises.
\<close>

definition run_command :: "env \<Rightarrow> string \<Rightarrow> (error + bool) \<times> call list" where
  "run_command w cmd =
     (if cmd = ''/fix'' then
        (case groq_ask w FixPrompt of
           Inl e \<Rightarrow> (Inl e, [GroqAsk FixPrompt])
         | Inr r \<Rightarrow> (Inr True, [GroqAsk FixPrompt]))
      else if cmd = ''/explain'' then
        (case groq_text w ExplainPrompt of
           Inl e \<Rightarrow> (Inl e, [GroqText ExplainPrompt])
         | Inr t \<Rightarrow> (Inr True, [GroqText ExplainPrompt]))
      else if cmd = ''/improve'' then
        (case groq_ask w ImprovePrompt of
           Inl e \<Rightarrow> (Inl e, [GroqAsk ImprovePrompt])
         | Inr r \<Rightarrow>
             (case py_slice (dget_default r ''improvements'' (JArray [])) 4 of
                Inl e \<Rightarrow> (Inl e, [GroqAsk ImprovePrompt])
              | Inr imps \<Rightarrow>
                  (case first_error render_improvement imps of
                     Some e \<Rightarrow> (Inl e, [GroqAsk ImprovePrompt])
                   | None \<Rightarrow> (Inr True, [GroqAsk ImprovePrompt]))))
      else if cmd = ''/test'' then
        (case groq_ask w TestPrompt of
           Inl e \<Rightarrow> (Inl e, [GroqAsk TestPrompt])
         | Inr r \<Rightarrow>
             (case py_slice (dget_default r ''tests'' (JArray [])) 3 of
                Inl e \<Rightarrow> (Inl e, [GroqAsk TestPrompt])
              | Inr tests \<Rightarrow>
                  (case first_error render_test tests of
                     Some e \<Rightarrow> (Inl e, [GroqAsk TestPrompt])
                   | None \<Rightarrow> (Inr True, [GroqAsk TestPrompt]))))
      else if cmd = ''/docs'' then
        (case groq_ask w DocsPrompt of
           Inl e \<Rightarrow> (Inl e, [GroqAsk DocsPrompt])
         | Inr r \<Rightarrow> (Inr True, [GroqAsk DocsPrompt]))
      else if cmd = ''/review'' then (Inr True, [])
      else (Inr False, []))"

text \<open>
  The handler gives back the exception that escapes it, if any, the token cache afterwards
  and the trace of outbound calls. The fetched issue and the code block of the comment only
  feed the prompt; a failed fetch is swallowed by the source.
\<close>

definition handle_issue_comment ::
  "env \<Rightarrow> cache \<Rightarrow> comment_event \<Rightarrow> error option \<times> cache \<times> call list" where
  "handle_issue_comment w c ev =
     (if ce_action ev \<noteq> Some ''created'' then (None, c, [])
      else if ce_author ev \<in> set SKIP_AUTHORS \<or> endswith (ce_author ev) ''[bot]''
      then (None, c, [])
      else
        (case parse_command (ce_body ev) of
           None \<Rightarrow> (None, c, [])
         | Some cmd \<Rightarrow>
             (case token_for w c (ce_installation ev) of
                (Inl e, c', tr) \<Rightarrow> (Some e, c', tr)
              | (Inr tok, c', tr) \<Rightarrow>
                  (let tr1 = tr @ [GhGet (EpIssue (ce_repo ev) (ce_issue_number ev))]
                   in case run_command w cmd of
                        (Inl e, tr2) \<Rightarrow> (Some e, c', tr1 @ tr2)
                      | (Inr False, tr2) \<Rightarrow> (None, c', tr1 @ tr2)
                      | (Inr True, tr2) \<Rightarrow>
                          (gh_post w (EpIssueComments (ce_repo ev) (ce_issue_number ev))
                             CommandReply,
                           c',
                           tr1 @ tr2 @
                             [GhPost (EpIssueComments (ce_repo ev) (ce_issue_number ev))
                                CommandReply])))))"

subsection \<open>Pull requests\<close>

record pr_event =
  pe_action :: "string option"
  pe_repo :: string
  pe_number :: int
  pe_author :: string
  pe_title :: string
  pe_body :: "string option"
  pe_installation :: int

text \<open>\<open>body = pr.get("body", "") or ""\<close>\<close>

definition pr_body :: "pr_event \<Rightarrow> string" where
  "pr_body ev = (case pe_body ev of None \<Rightarrow> [] | Some b \<Rightarrow> b)"

text \<open>
  The dictionary sent by \<open>gh_patch\<close>: the title when the answer has a truthy
  \<open>improved_title\<close> that differs from the current title, the body when the current body is
  empty or shorter than 30 characters once stripped.
\<close>

definition patch_data :: "string \<Rightarrow> string \<Rightarrow> dict \<Rightarrow> dict" where
  "patch_data title body result =
     (if get_truthy result ''improved_title''
         \<and> dget result ''improved_title'' \<noteq> Some (JString title)
      then [(''title'', dget_default result ''improved_title'' JNull)] else [])
     @ (if body = [] \<or> length (strip body) < 30
        then [(''body'', dget_default result ''description'' (JString body))] else [])"

text \<open>\<open>_ensure_labels\<close>: one post per entry of the table of 15 labels, failures swallowed.\<close>

definition ensure_labels :: "string \<Rightarrow> call list" where
  "ensure_labels repo = map (\<lambda>k. GhPost (EpLabels repo) (LabelDef k)) [0 ..< 15]"

definition REVIEWABLE :: "string list" where
  "REVIEWABLE = [''.py'', ''.js'', ''.ts'', ''.jsx'', ''.tsx'', ''.go'', ''.java'',
                 ''.sql'', ''.rs'']"

definition reviewable_files :: "pr_file list \<Rightarrow> pr_file list" where
  "reviewable_files files =
     take 4 (filter (\<lambda>f. list_ex (\<lambda>ext. endswith (filename f) ext) REVIEWABLE
                          \<and> status f \<noteq> Some ''removed'' \<and> changes f > 0) files)"

text \<open>
  The review loop: one fast-tier assistant call per file, in order; an exception of
  \<open>groq_ask\<close> ends the handler; a result is appended to \<open>reviews\<close> only under
  \<open>if result.get("score")\<close>. \<open>k\<close> counts the files already asked.
\<close>

fun ask_reviews ::
  "env \<Rightarrow> nat \<Rightarrow> pr_file list \<Rightarrow> (error + (string \<times> dict) list) \<times> call list" where
  "ask_reviews w k [] = (Inr [], [])"
| "ask_reviews w k (f # fs) =
     (case groq_ask w (ReviewFile k (filename f)) of
        Inl e \<Rightarrow> (Inl e, [GroqAsk (ReviewFile k (filename f))])
      | Inr result \<Rightarrow>
          (case ask_reviews w (Suc k) fs of
             (Inl e, tr) \<Rightarrow> (Inl e, GroqAsk (ReviewFile k (filename f)) # tr)
           | (Inr reviews, tr) \<Rightarrow>
               (Inr ((if get_truthy result ''score'' then [(filename f, result)] else [])
                     @ reviews),
                GroqAsk (ReviewFile k (filename f)) # tr)))"

text \<open>
  \<open>sum(r.get("score", 7) for _, r in reviews) / len(reviews)\<close>, over exact reals:
  a score that is not a number makes the sum raise. The program computes in doubles; the
  model keeps the exact sum and quotient, and a partial sum of magnitude \<open>2^1023\<close> or more
  (where a double, or the conversion of an integer to one, overflows) is outside the
  modelled fragment.
\<close>

definition score_number :: "json \<Rightarrow> error + real" where
  "score_number v =
     (case v of
        JInt n \<Rightarrow> Inr (real_of_int n)
      | JFloat r \<Rightarrow> Inr r
      | JBool b \<Rightarrow> Inr (if b then 1 else 0)
      | _ \<Rightarrow> Inl TypeError)"

fun sum_scores :: "real \<Rightarrow> (string \<times> dict) list \<Rightarrow> error + real" where
  "sum_scores acc [] = Inr acc"
| "sum_scores acc ((fname, r) # rs) =
     (case score_number (dget_default r ''score'' (JInt 7)) of
        Inl e \<Rightarrow> Inl e
      | Inr x \<Rightarrow>
          if \<bar>acc + x\<bar> < 2 ^ 1023 then sum_scores (acc + x) rs else Inl Unmodelled)"

definition review_avg :: "(string \<times> dict) list \<Rightarrow> error + real" where
  "review_avg reviews =
     (case sum_scores 0 reviews of
        Inl e \<Rightarrow> Inl e
      | Inr score_sum \<Rightarrow> Inr (score_sum / real (length reviews)))"

text \<open>\<open>all_issues.extend(r.get("issues", []))\<close>: what iterating the value yields.\<close>

definition iter_values :: "json \<Rightarrow> error + json list" where
  "iter_values v =
     (case v of
        JArray xs \<Rightarrow> Inr xs
      | JString s \<Rightarrow> Inr (map (\<lambda>c. JString [c]) s)
      | JObject d \<Rightarrow> Inr (map (\<lambda>kv. JString (fst kv)) d)
      | _ \<Rightarrow> Inl TypeError)"

fun gather_issues :: "json list \<Rightarrow> (string \<times> dict) list \<Rightarrow> error + json list" where
  "gather_issues all_issues [] = Inr all_issues"
| "gather_issues all_issues ((fname, r) # rs) =
     (case iter_values (dget_default r ''issues'' (JArray [])) of
        Inl e \<Rightarrow> Inl e
      | Inr xs \<Rightarrow> gather_issues (all_issues @ xs) rs)"

text \<open>\<open>[i for i in all_issues if i.get("severity") == "critical"]\<close>\<close>

fun critical_issues :: "json list \<Rightarrow> error + json list" where
  "critical_issues [] = Inr []"
| "critical_issues (i # rest) =
     (case i of
        JObject d \<Rightarrow>
          (case critical_issues rest of
             Inl e \<Rightarrow> Inl e
           | Inr cs \<Rightarrow>
               Inr ((if dget d ''severity'' = Some (JString ''critical'') then [i] else [])
                    @ cs))
      | _ \<Rightarrow> Inl AttributeError)"

text \<open>One turn of the loop that renders \<open>all_issues[:6]\<close>.\<close>

definition render_issue :: "json \<Rightarrow> error option" where
  "render_issue issue =
     (case issue of
        JObject d \<Rightarrow>
          (let sev = dget_default d ''severity'' (JString ''minor'')
           in if \<not> hashable sev then Some TypeError
              else if \<not> is_str sev then Some AttributeError
              else if get_truthy d ''fix'' \<and> \<not> sliceable (dget_default d ''fix'' JNull)
              then Some TypeError else None)
      | _ \<Rightarrow> Some AttributeError)"

text \<open>
  The rows of the file table: per collected review the file name, \<open>r.get('score', '?')\<close>
  and \<open>r.get('verdict', ...)\<close> (\<open>None\<close> where the default dash is printed).
\<close>

definition file_table :: "(string \<times> dict) list \<Rightarrow> (string \<times> json \<times> json option) list" where
  "file_table reviews =
     map (\<lambda>(fname, r). (fname, dget_default r ''score'' (JString ''?''), dget r ''verdict''))
       reviews"

text \<open>
  Everything between \<open>if not reviews: return\<close> and the \<open>try\<close> that posts, in the
  order of the source: the average, the gathered issues, the critical ones, the rendering
  of \<open>all_issues[:6]\<close>, the file table. The result is what the comment is made of (the
  average, the table, the issues shown) and whether \<open>critical\<close> is non-empty.
\<close>

definition review_summary ::
  "(string \<times> dict) list
     \<Rightarrow> error + (real \<times> (string \<times> json \<times> json option) list \<times> json list \<times> bool)" where
  "review_summary reviews =
     (case review_avg reviews of
        Inl e \<Rightarrow> Inl e
      | Inr avg \<Rightarrow>
          (case gather_issues [] reviews of
             Inl e \<Rightarrow> Inl e
           | Inr all_issues \<Rightarrow>
               (case critical_issues all_issues of
                  Inl e \<Rightarrow> Inl e
                | Inr critical \<Rightarrow>
                    (case first_error render_issue (take 6 all_issues) of
                       Some e \<Rightarrow> Inl e
                     | None \<Rightarrow>
                         Inr (avg, file_table reviews, take 6 all_issues, critical \<noteq> [])))))"

text \<open>
  \<open>_run_code_review\<close>: the exception that escapes, if any, and the calls made. The
  posted comment carries what it is rendered from; the label is posted after the comment,
  inside the same \<open>try\<close>, so a failed comment post skips it.
\<close>

definition run_code_review ::
  "env \<Rightarrow> string \<Rightarrow> int \<Rightarrow> pr_file list \<Rightarrow> error option \<times> call list" where
  "run_code_review w repo pr_number files =
     (let reviewable = reviewable_files files
      in if reviewable = [] then (None, [])
         else
           (case ask_reviews w 0 reviewable of
              (Inl e, tr) \<Rightarrow> (Some e, tr)
            | (Inr reviews, tr) \<Rightarrow>
                if reviews = [] then (None, tr)
                else
                  (case review_summary reviews of
                     Inl e \<Rightarrow> (Some e, tr)
                   | Inr (avg, table, shown, critical) \<Rightarrow>
                       (None,
                        tr @ GhPost (EpIssueComments repo pr_number)
                               (ReviewComment avg table shown)
                           # (if post_ok w (EpIssueComments repo pr_number)
                                   (ReviewComment avg table shown) \<and> critical
                              then [GhPost (EpIssueLabels repo pr_number) CriticalLabel]
                              else [])))))"

text \<open>
  \<open>handle_pull_request\<close>. When fetching the changed files fails, the source leaves
  \<open>files\<close> unassigned and the call of \<open>_run_code_review\<close> raises.
\<close>

definition handle_pull_request ::
  "env \<Rightarrow> cache \<Rightarrow> pr_event \<Rightarrow> error option \<times> cache \<times> call list" where
  "handle_pull_request w c ev =
     (if pe_action ev \<noteq> Some ''opened'' \<and> pe_action ev \<noteq> Some ''reopened''
      then (None, c, [])
      else if pe_author ev \<in> set SKIP_AUTHORS then (None, c, [])
      else
        (case token_for w c (pe_installation ev) of
           (Inl e, c', tr) \<Rightarrow> (Some e, c', tr)
         | (Inr tok, c', tr) \<Rightarrow>
             (let repo = pe_repo ev; n = pe_number ev;
                  tr1 = tr @ ensure_labels repo @ [GhGet (EpPullFiles repo n)]
                          @ [GroqAsk AnalyzePR]
              in case groq_ask w AnalyzePR of
                   Inl e \<Rightarrow> (Some e, c', tr1)
                 | Inr result \<Rightarrow>
                     (let pd = patch_data (pe_title ev) (pr_body ev) result;
                          labels = dget_default result ''labels'' (JArray []);
                          risk = dget_default result ''risk_level'' (JString ''low'');
                          tr2 = tr1
                            @ (if pd \<noteq> [] then [GhPatch (EpPull repo n) pd] else [])
                            @ (if truthy labels then [GhPost (EpIssueLabels repo n) AILabels]
                               else []);
                          tr3 = tr2 @ [GhPost (EpIssueComments repo n) AnalysisComment]
                      in if \<not> hashable risk then (Some TypeError, c', tr2)
                         else if \<not> is_str risk then (Some AttributeError, c', tr2)
                         else
                           (case gh_post w (EpIssueComments repo n) AnalysisComment of
                              Some e \<Rightarrow> (Some e, c', tr3)
                            | None \<Rightarrow>
                                (case pull_files w repo n of
                                   Inl e \<Rightarrow> (Some UnboundLocalError, c', tr3)
                                 | Inr files \<Rightarrow>
                                     (case run_code_review w repo n files of
                                        (r, tr4) \<Rightarrow> (r, c', tr3 @ tr4))))))))"

subsection \<open>Pushes\<close>

record commit =
  commit_id :: string
  message :: string

record push_event =
  pu_ref :: string
  pu_commits :: "commit list"
  pu_repo :: string
  pu_installation :: "int option"

text \<open>
  The pattern
  \<open>^(feat|fix|docs|style|refactor|perf|test|chore|ci|build|revert)(\(.+\))?(!)?: .+\<close>,
  matched at the start of a line, letters compared without case; \<open>.\<close> is any character
  but a newline.
\<close>

definition TYPES :: "string list" where
  "TYPES = [''feat'', ''fix'', ''docs'', ''style'', ''refactor'', ''perf'', ''test'',
            ''chore'', ''ci'', ''build'', ''revert'']"

text \<open>\<open>: .+\<close>\<close>

definition colon_description :: "string \<Rightarrow> bool" where
  "colon_description r =
     (case r of
        a # b # d # rest \<Rightarrow> a = CHR '':'' \<and> b = CHR '' '' \<and> d \<noteq> CHR 0x0A
      | _ \<Rightarrow> False)"

text \<open>\<open>(!)?: .+\<close>\<close>

definition bang_colon_description :: "string \<Rightarrow> bool" where
  "bang_colon_description r =
     (colon_description r
      \<or> (case r of a # rest \<Rightarrow> a = CHR ''!'' \<and> colon_description rest | [] \<Rightarrow> False))"

text \<open>
  \<open>.+\)\<close> followed by the rest of the pattern, after the opening parenthesis: \<open>seen\<close>
  tells that the scope already has a character.
\<close>

fun scope_rest :: "bool \<Rightarrow> string \<Rightarrow> bool" where
  "scope_rest seen [] = False"
| "scope_rest seen (c # s) =
     ((seen \<and> c = CHR '')'' \<and> bang_colon_description s)
      \<or> (c \<noteq> CHR 0x0A \<and> scope_rest True s))"

definition CONVENTIONAL :: "string \<Rightarrow> bool" where
  "CONVENTIONAL line =
     list_ex (\<lambda>t. lower (take (length t) line) = t
                  \<and> (let r = drop (length t) line
                     in bang_colon_description r
                        \<or> (case r of a # s \<Rightarrow> a = CHR ''('' \<and> scope_rest False s
                                    | [] \<Rightarrow> False)))
       TYPES"

text \<open>\<open>message.split("\n")[0]\<close>\<close>

definition first_line :: "string \<Rightarrow> string" where
  "first_line msg = takeWhile (\<lambda>c. c \<noteq> CHR 0x0A) msg"

definition bad_commits :: "commit list \<Rightarrow> commit list" where
  "bad_commits commits =
     filter (\<lambda>c. \<not> CONVENTIONAL (first_line (message c))
                 \<and> \<not> startswith (message c) ''Merge'')
       (take 10 commits)"

text \<open>\<open>if not installation_id\<close>: an absent id and the id 0 are falsy.\<close>

definition handle_push ::
  "env \<Rightarrow> cache \<Rightarrow> push_event \<Rightarrow> error option \<times> cache \<times> call list" where
  "handle_push w c ev =
     (if \<not> (contains (pu_ref ev) ''/main'' \<or> contains (pu_ref ev) ''/master'')
      then (None, c, [])
      else
        (case pu_installation ev of
           None \<Rightarrow> (None, c, [])
         | Some installation_id \<Rightarrow>
             if installation_id = 0 then (None, c, [])
             else
               (let bad = bad_commits (pu_commits ev)
                in if bad = [] then (None, c, [])
                   else
                     (case token_for w c installation_id of
                        (Inl e, c', tr) \<Rightarrow> (Some e, c', tr)
                      | (Inr tok, c', tr) \<Rightarrow>
                          if length bad \<ge> 3
                          then (None, c',
                                tr @ [GhPost (EpIssues (pu_repo ev)) (AlertIssue (length bad))])
                          else (None, c', tr)))))"

subsection \<open>Worlds used in examples\<close>

text \<open>A world in which every request fails, and one in which every request succeeds and
  the assistant answers each prompt with the same text.\<close>

definition offline :: env where
  "offline =
     \<lparr>clock_check = 0, clock_store = 0,
      exchange = (\<lambda>i. Inl HTTPError),
      issue_lookup = (\<lambda>repo n. Inl HTTPError),
      pull_files = (\<lambda>repo n. Inl HTTPError),
      post_ok = (\<lambda>ep k. False),
      patch_ok = (\<lambda>ep d. False),
      assistant = (\<lambda>p. Inl HTTPError)\<rparr>"

definition answering :: "string \<Rightarrow> env" where
  "answering text =
     \<lparr>clock_check = 0, clock_store = 0,
      exchange = (\<lambda>i. Inr ''tok''),
      issue_lookup = (\<lambda>repo n. Inr []),
      pull_files = (\<lambda>repo n. Inr []),
      post_ok = (\<lambda>ep k. True),
      patch_ok = (\<lambda>ep d. True),
      assistant = (\<lambda>p. Inr text)\<rparr>"


section \<open>Webhook gateway (server.py)\<close>

subsection \<open>HMAC-SHA256, as \<open>hmac.new(key, msg, hashlib.sha256)\<close> computes it\<close>

type_synonym byte = "8 word"

definition K256 :: "32 word list" where
  "K256 =
    [
     0x428A2F98, 0x71374491, 0xB5C0FBCF, 0xE9B5DBA5, 0x3956C25B, 0x59F111F1,
     0x923F82A4, 0xAB1C5ED5, 0xD807AA98, 0x12835B01, 0x243185BE, 0x550C7DC3,
     0x72BE5D74, 0x80DEB1FE, 0x9BDC06A7, 0xC19BF174, 0xE49B69C1, 0xEFBE4786,
     0x0FC19DC6, 0x240CA1CC, 0x2DE92C6F, 0x4A7484AA, 0x5CB0A9DC, 0x76F988DA,
     0x983E5152, 0xA831C66D, 0xB00327C8, 0xBF597FC7, 0xC6E00BF3, 0xD5A79147,
     0x06CA6351, 0x14292967, 0x27B70A85, 0x2E1B2138, 0x4D2C6DFC, 0x53380D13,
     0x650A7354, 0x766A0ABB, 0x81C2C92E, 0x92722C85, 0xA2BFE8A1, 0xA81A664B,
     0xC24B8B70, 0xC76C51A3, 0xD192E819, 0xD6990624, 0xF40E3585, 0x106AA070,
     0x19A4C116, 0x1E376C08, 0x2748774C, 0x34B0BCB5, 0x391C0CB3, 0x4ED8AA4A,
     0x5B9CCA4F, 0x682E6FF3, 0x748F82EE, 0x78A5636F, 0x84C87814, 0x8CC70208,
     0x90BEFFFA, 0xA4506CEB, 0xBEF9A3F7, 0xC67178F2]"

definition H256 :: "32 word list" where
  "H256 =
    [
     0x6A09E667, 0xBB67AE85, 0x3C6EF372, 0xA54FF53A,
     0x510E527F, 0x9B05688C, 0x1F83D9AB, 0x5BE0CD19]"

definition rotr :: "nat \<Rightarrow> 32 word \<Rightarrow> 32 word" where
  "rotr n x = (drop_bit n x) OR (push_bit (32 - n) x)"

definition ch :: "32 word \<Rightarrow> 32 word \<Rightarrow> 32 word \<Rightarrow> 32 word" where
  "ch x y z = (x AND y) XOR (NOT x AND z)"

definition maj :: "32 word \<Rightarrow> 32 word \<Rightarrow> 32 word \<Rightarrow> 32 word" where
  "maj x y z = (x AND y) XOR (x AND z) XOR (y AND z)"

definition big_sigma0 :: "32 word \<Rightarrow> 32 word" where
  "big_sigma0 x = rotr 2 x XOR rotr 13 x XOR rotr 22 x"

definition big_sigma1 :: "32 word \<Rightarrow> 32 word" where
  "big_sigma1 x = rotr 6 x XOR rotr 11 x XOR rotr 25 x"

definition small_sigma0 :: "32 word \<Rightarrow> 32 word" where
  "small_sigma0 x = rotr 7 x XOR rotr 18 x XOR drop_bit 3 x"

definition small_sigma1 :: "32 word \<Rightarrow> 32 word" where
  "small_sigma1 x = rotr 17 x XOR rotr 19 x XOR drop_bit 10 x"

text \<open>Big-endian conversions between bytes and words.\<close>

definition be32 :: "byte list \<Rightarrow> 32 word" where
  "be32 bs = foldl (\<lambda>w b. push_bit 8 w OR ucast b) 0 bs"

definition be_bytes :: "nat \<Rightarrow> 'a::len word \<Rightarrow> byte list" where
  "be_bytes k w = map (\<lambda>i. ucast (drop_bit (8 * (k - 1 - i)) w)) [0 ..< k]"

text \<open>Padding: a one bit, zeros, and the bit length on 8 bytes, up to a multiple of 64.\<close>

definition sha_pad :: "byte list \<Rightarrow> byte list" where
  "sha_pad msg =
     msg @ [0x80] @ replicate ((119 - length msg mod 64) mod 64) 0
       @ be_bytes 8 (word_of_nat (8 * length msg) :: 64 word)"

fun chunks :: "nat \<Rightarrow> nat \<Rightarrow> 'a list \<Rightarrow> 'a list list" where
  "chunks 0 k xs = []"
| "chunks (Suc n) k xs = take k xs # chunks n k (drop k xs)"

text \<open>The message schedule: 16 words of the block, extended to 64.\<close>

fun schedule :: "nat \<Rightarrow> 32 word list \<Rightarrow> 32 word list" where
  "schedule 0 ws = ws"
| "schedule (Suc n) ws =
     schedule n
       (ws @ [small_sigma1 (ws ! (length ws - 2)) + ws ! (length ws - 7)
              + small_sigma0 (ws ! (length ws - 15)) + ws ! (length ws - 16)])"

definition sha_round :: "32 word list \<Rightarrow> 32 word \<times> 32 word \<Rightarrow> 32 word list" where
  "sha_round st kw =
     (case st of
        [a, b, c, d, e, f, g, h] \<Rightarrow>
          (let t1 = h + big_sigma1 e + ch e f g + fst kw + snd kw;
               t2 = big_sigma0 a + maj a b c
           in [t1 + t2, a, b, c, d + t1, e, f, g])
      | _ \<Rightarrow> st)"

definition compress :: "32 word list \<Rightarrow> byte list \<Rightarrow> 32 word list" where
  "compress hs block =
     (let ws = schedule 48 (map be32 (chunks 16 4 block))
      in map2 (+) hs (foldl sha_round hs (zip K256 ws)))"

definition sha256 :: "byte list \<Rightarrow> byte list" where
  "sha256 msg =
     (let padded = sha_pad msg
      in concat (map (be_bytes 4)
           (foldl compress H256 (chunks (length padded div 64) 64 padded))))"

definition hmac_sha256 :: "byte list \<Rightarrow> byte list \<Rightarrow> byte list" where
  "hmac_sha256 key msg =
     (let k0 = (if length key > 64 then sha256 key else key);
          k = k0 @ replicate (64 - length k0) 0
      in sha256 (map (\<lambda>b. b XOR 0x5C) k @ sha256 (map (\<lambda>b. b XOR 0x36) k @ msg)))"

text \<open>\<open>hexdigest()\<close>: two lower-case hexadecimal digits per byte.\<close>

definition hex_digit :: "nat \<Rightarrow> char" where
  "hex_digit n = (if n < 10 then char_of (48 + n) else char_of (87 + n))"

definition hexdigest :: "byte list \<Rightarrow> string" where
  "hexdigest bs = concat (map (\<lambda>b. [hex_digit (unat b div 16), hex_digit (unat b mod 16)]) bs)"

subsection \<open>Signature check and dispatch\<close>

text \<open>
  \<open>hmac.compare_digest\<close> on two \<open>str\<close> arguments raises \<open>TypeError\<close> unless both are
  ASCII; otherwise it tells whether they are equal.
\<close>

definition is_ascii :: "string \<Rightarrow> bool" where
  "is_ascii s = list_all (\<lambda>c. (of_char c :: nat) < 128) s"

definition compare_digest :: "string \<Rightarrow> string \<Rightarrow> error + bool" where
  "compare_digest a b = (if is_ascii a \<and> is_ascii b then Inr (a = b) else Inl TypeError)"

definition expected_signature :: "byte list \<Rightarrow> byte list \<Rightarrow> string" where
  "expected_signature secret payload = ''sha256='' @ hexdigest (hmac_sha256 secret payload)"

text \<open>
  \<open>secret\<close> stands for \<open>WEBHOOK_SECRET.encode()\<close>, empty exactly when the setting is;
  \<open>signature\<close> is \<open>None\<close> or a header value, and \<open>signature or ""\<close> reads both \<open>None\<close>
  and the empty string as the empty string.
\<close>

definition verify_signature :: "byte list \<Rightarrow> byte list \<Rightarrow> string option \<Rightarrow> error + bool" where
  "verify_signature secret payload signature =
     (if secret = [] then Inr True
      else compare_digest (expected_signature secret payload)
             (case signature of None \<Rightarrow> [] | Some s \<Rightarrow> s))"

datatype handler = HandlePullRequest | HandleIssues | HandleIssueComment | HandlePush

record request =
  sig_header :: "string option"
  event_header :: "string option"
  data :: "byte list"

definition route :: "string \<Rightarrow> handler option" where
  "route event =
     (if event = ''pull_request'' then Some HandlePullRequest
      else if event = ''issues'' then Some HandleIssues
      else if event = ''issue_comment'' then Some HandleIssueComment
      else if event = ''push'' then Some HandlePush
      else None)"

text \<open>\<open>d.get(k, {})\<close> followed by another \<open>.get\<close>: raises unless the value is a dict.\<close>

definition sub_dict :: "dict \<Rightarrow> string \<Rightarrow> error + dict" where
  "sub_dict d k =
     (case dget_default d k (JObject []) of
        JObject d' \<Rightarrow> Inr d'
      | _ \<Rightarrow> Inl AttributeError)"

text \<open>
  The endpoint, as status code and handlers invoked. \<open>get_json\<close> is the decoding of
  the body by \<open>request.get_json(force=True)\<close>, \<open>None\<close> when it answers 400;
  \<open>run\<close> is the invoked handler, giving the exception that escapes it, if any. An exception
  outside the \<open>try\<close> block is answered with status 500 by the framework.
\<close>

definition webhook ::
  "byte list \<Rightarrow> request \<Rightarrow> (byte list \<Rightarrow> json option)
     \<Rightarrow> (handler \<Rightarrow> dict \<Rightarrow> error option) \<Rightarrow> nat \<times> handler list" where
  "webhook secret req get_json run =
     (let sig = (case sig_header req of None \<Rightarrow> [] | Some s \<Rightarrow> s)
      in case (if secret \<noteq> [] then verify_signature secret (data req) (Some sig)
               else Inr True) of
           Inl e \<Rightarrow> (500, [])
         | Inr False \<Rightarrow> (401, [])
         | Inr True \<Rightarrow>
             (let event = (case event_header req of None \<Rightarrow> [] | Some e \<Rightarrow> e)
              in case get_json (data req) of
                   None \<Rightarrow> (400, [])
                 | Some parsed \<Rightarrow>
                     (case (if truthy parsed then parsed else JObject []) of
                        JObject payload \<Rightarrow>
                          (case sub_dict payload ''repository'' of
                             Inl e \<Rightarrow> (500, [])
                           | Inr repository \<Rightarrow>
                               (case route event of
                                  Some h \<Rightarrow>
                                    (case run h payload of
                                       Some e \<Rightarrow> (500, [h])
                                     | None \<Rightarrow> (200, [h]))
                                | None \<Rightarrow>
                                    if event = ''installation'' then
                                      (case sub_dict payload ''installation'' of
                                         Inl e \<Rightarrow> (500, [])
                                       | Inr inst \<Rightarrow>
                                           (case sub_dict inst ''account'' of
                                              Inl e \<Rightarrow> (500, [])
                                            | Inr account \<Rightarrow> (200, [])))
                                    else (200, [])))
                      | _ \<Rightarrow> (500, []))))"

text \<open>A mutation of one bit of a header: bit \<open>k\<close> of the character at position \<open>i\<close>.\<close>

definition flip_header_bit :: "nat \<Rightarrow> nat \<Rightarrow> string \<Rightarrow> string" where
  "flip_header_bit i k s = s[i := char_of (flip_bit k (of_char (s ! i) :: nat))]"

section \<open>Properties\<close>

lemma contains_iff: "contains s p \<longleftrightarrow> (\<exists>u v. s = u @ p @ v)"
proof (induction s)
  case Nil
  then show ?case by auto
next
  case (Cons c s)
  have pre: "startswith (c # s) p \<longleftrightarrow> (\<exists>v. c # s = p @ v)"
    unfolding startswith_def
    by (metis append_eq_conv_conj append_take_drop_id)
  show ?case
  proof
    assume "contains (c # s) p"
    then consider "startswith (c # s) p" | "contains s p" by auto
    then show "\<exists>u v. c # s = u @ p @ v"
    proof cases
      case 1
      then obtain v where "c # s = p @ v" using pre by blast
      then have "c # s = [] @ p @ v" by simp
      then show ?thesis by blast
    next
      case 2
      then obtain u v where "s = u @ p @ v" using Cons.IH by blast
      then have "c # s = (c # u) @ p @ v" by simp
      then show ?thesis by blast
    qed
  next
    assume "\<exists>u v. c # s = u @ p @ v"
    then obtain u v where uv: "c # s = u @ p @ v" by blast
    show "contains (c # s) p"
    proof (cases u)
      case Nil
      then have "startswith (c # s) p" using uv pre by auto
      then show ?thesis by simp
    next
      case (Cons d u')
      then have "s = u' @ p @ v" using uv by simp
      then show ?thesis using Cons.IH by auto
    qed
  qed
qed

lemma lower_char_fixed:
  "c \<in> set ''/abcdefghijklmnopqrstuvwxyz'' \<Longrightarrow> lower_char c = c"
  by (auto simp: lower_char_def)

lemma lower_fixed:
  assumes "set p \<subseteq> set ''/abcdefghijklmnopqrstuvwxyz''"
  shows "lower p = p"
  unfolding lower_def
proof (rule map_idI)
  fix c assume "c \<in> set p"
  then have "c \<in> set ''/abcdefghijklmnopqrstuvwxyz''" using assms by blast
  then show "lower_char c = c" by (rule lower_char_fixed)
qed

lemma contains_lower:
  assumes "contains body p" and "lower p = p"
  shows "contains (lower body) p"
proof -
  from assms(1) obtain u v where "body = u @ p @ v" unfolding contains_iff by blast
  then have "lower body = lower u @ p @ lower v"
    using assms(2) by (simp add: lower_def)
  then show ?thesis unfolding contains_iff by blast
qed

text \<open>
  C7. Command extraction is a function of the comment text (deterministic), and the first
  command of the fixed order /fix, /explain, /improve, /test, /docs, /review that occurs in
  the lower-cased text wins: the command at position \<open>i\<close> is chosen exactly when it occurs
  and no command at an earlier position does. In particular a comment whose text contains
  both "/fix" and "/explain" (as written, or after lower-casing) dispatches "/fix".
\<close>

theorem parse_command_first_match:
  "COMMANDS = [''/fix'', ''/explain'', ''/improve'', ''/test'', ''/docs'', ''/review'']
   \<and> (\<forall>i < length COMMANDS.
         parse_command body = Some (COMMANDS ! i) \<longleftrightarrow>
           contains (lower body) (COMMANDS ! i) \<and>
           (\<forall>j < i. \<not> contains (lower body) (COMMANDS ! j)))
   \<and> (contains (lower body) ''/fix'' \<and> contains (lower body) ''/explain''
         \<longrightarrow> parse_command body = Some ''/fix'')
   \<and> (contains body ''/fix'' \<and> contains body ''/explain''
         \<longrightarrow> parse_command body = Some ''/fix'')"
proof -
  have dist: "distinct COMMANDS" by (simp add: COMMANDS_def)
  have char: "\<forall>i < length COMMANDS.
         parse_command body = Some (COMMANDS ! i) \<longleftrightarrow>
           contains (lower body) (COMMANDS ! i) \<and>
           (\<forall>j < i. \<not> contains (lower body) (COMMANDS ! j))"
    unfolding parse_command_def find_Some_iff
    using dist by (auto simp: nth_eq_iff_index_eq)
  have fix1: "contains (lower body) ''/fix'' \<Longrightarrow> parse_command body = Some ''/fix''"
    by (simp add: parse_command_def COMMANDS_def)
  have fix2: "contains body ''/fix'' \<Longrightarrow> contains (lower body) ''/fix''"
    by (rule contains_lower) (simp_all add: lower_fixed)
  show ?thesis using char fix1 fix2 by (simp add: COMMANDS_def)
qed

theorem parse_command_first_match_witness:
  "contains (lower ''Please /explain and then /FIX it'') ''/fix''
   \<and> contains (lower ''Please /explain and then /FIX it'') ''/explain''
   \<and> parse_command ''Please /explain and then /FIX it'' = Some ''/fix''"
proof -
  have a: "contains (lower ''Please /explain and then /FIX it'') ''/fix''"
    by code_simp
  have b: "contains (lower ''Please /explain and then /FIX it'') ''/explain''"
    by code_simp
  from parse_command_first_match [of "''Please /explain and then /FIX it''"] a b
  show ?thesis by blast
qed

subsection \<open>Credential manager\<close>

lemma token_cached:
  "c i = Some e \<Longrightarrow> expires e > now + 60 \<Longrightarrow>
     get_installation_token c i now resp now' = (Inr (token e), c, [])"
  by (simp add: get_installation_token_def)

lemma token_fresh:
  "c i = None \<or> (\<exists>e. c i = Some e \<and> \<not> expires e > now + 60) \<Longrightarrow>
     get_installation_token c i now resp now' =
       (case resp of
          Inl err \<Rightarrow> (Inl err, c, [TokenExchange i])
        | Inr tok \<Rightarrow>
            (Inr tok, c(i \<mapsto> \<lparr>token = tok, expires = now' + 50 * 60\<rparr>), [TokenExchange i]))"
  by (auto simp: get_installation_token_def Let_def split: sum.splits)

lemma token_trace_cases:
  "snd (snd (get_installation_token c i now resp now')) = [] \<or>
   snd (snd (get_installation_token c i now resp now')) = [TokenExchange i]"
  by (auto simp: get_installation_token_def Let_def split: option.splits sum.splits)

text \<open>
  C3. A call that answers from the cache, without a token exchange, found an entry with at
  least 60 seconds of validity left (the test is the strict \<open>expires > now + 60\<close>) and
  returns that entry's token, leaving the cache as it was. When the installation has no
  entry, or its entry has less than 60 seconds left, the exchange is made; when it succeeds
  the entry of the installation is the new record alone (fresh token, expiry 50 minutes
  after the store), every other entry is untouched, and the fresh token is returned.
  The call is determined in every case: an entry with more than 60 seconds left is
  answered from the cache with no exchange; otherwise (no entry, or at most 60 seconds
  left) the result is the outcome of the one exchange, and when the exchange fails its
  error is raised, no token is returned and the cache is as it was. So a token that is
  returned is either the token of an entry with at least 60 seconds left, returned with
  no exchange, or the token the exchange has just given.
\<close>

theorem cached_token_has_margin:
  "(snd (snd (get_installation_token c i now resp now')) = [] \<longrightarrow>
      (\<exists>e. c i = Some e \<and> expires e - now \<ge> 60
           \<and> get_installation_token c i now resp now' = (Inr (token e), c, [])))
   \<and> (c i = None \<or> (\<exists>e. c i = Some e \<and> expires e - now < 60) \<longrightarrow>
        snd (snd (get_installation_token c i now resp now')) = [TokenExchange i]
        \<and> (\<forall>tok. resp = Inr tok \<longrightarrow>
              get_installation_token c i now resp now' =
                (Inr tok, c(i \<mapsto> \<lparr>token = tok, expires = now' + 50 * 60\<rparr>),
                 [TokenExchange i])))
   \<and> (\<forall>e. c i = Some e \<and> expires e > now + 60 \<longrightarrow>
          get_installation_token c i now resp now' = (Inr (token e), c, []))
   \<and> (c i = None \<or> (\<exists>e. c i = Some e \<and> expires e \<le> now + 60) \<longrightarrow>
        get_installation_token c i now resp now' =
          (case resp of
             Inl err \<Rightarrow> (Inl err, c, [TokenExchange i])
           | Inr tok \<Rightarrow>
               (Inr tok, c(i \<mapsto> \<lparr>token = tok, expires = now' + 50 * 60\<rparr>),
                [TokenExchange i])))
   \<and> (\<forall>t. fst (get_installation_token c i now resp now') = Inr t \<longrightarrow>
          (\<exists>e. c i = Some e \<and> expires e - now \<ge> 60 \<and> t = token e
               \<and> snd (get_installation_token c i now resp now') = (c, []))
          \<or> (resp = Inr t
              \<and> snd (get_installation_token c i now resp now')
                  = (c(i \<mapsto> \<lparr>token = t, expires = now' + 50 * 60\<rparr>), [TokenExchange i])))"
proof -
  have hit: "\<exists>e. c i = Some e \<and> expires e - now \<ge> 60
           \<and> get_installation_token c i now resp now' = (Inr (token e), c, [])"
    if quiet: "snd (snd (get_installation_token c i now resp now')) = []"
  proof (cases "c i")
    case None
    then show ?thesis
      using quiet by (simp add: get_installation_token_def Let_def split: sum.splits)
  next
    case (Some e)
    have "expires e > now + 60"
    proof (rule ccontr)
      assume "\<not> expires e > now + 60"
      then show False
        using quiet Some by (simp add: get_installation_token_def Let_def split: sum.splits)
    qed
    then show ?thesis using Some token_cached [of c i e now resp now'] by simp
  qed
  have fresh: "snd (snd (get_installation_token c i now resp now')) = [TokenExchange i]
        \<and> (\<forall>tok. resp = Inr tok \<longrightarrow>
              get_installation_token c i now resp now' =
                (Inr tok, c(i \<mapsto> \<lparr>token = tok, expires = now' + 50 * 60\<rparr>),
                 [TokenExchange i]))"
    if miss: "c i = None \<or> (\<exists>e. c i = Some e \<and> expires e - now < 60)"
  proof -
    from miss have "c i = None \<or> (\<exists>e. c i = Some e \<and> \<not> expires e > now + 60)" by auto
    with token_fresh [of c i now resp now'] show ?thesis
      by (simp split: sum.splits)
  qed
  have served: "get_installation_token c i now resp now' = (Inr (token e), c, [])"
    if h: "c i = Some e \<and> expires e > now + 60" for e
    using h token_cached [of c i e now resp now'] by simp
  have exchanged: "get_installation_token c i now resp now' =
          (case resp of
             Inl err \<Rightarrow> (Inl err, c, [TokenExchange i])
           | Inr tok \<Rightarrow>
               (Inr tok, c(i \<mapsto> \<lparr>token = tok, expires = now' + 50 * 60\<rparr>),
                [TokenExchange i]))"
    if miss: "c i = None \<or> (\<exists>e. c i = Some e \<and> expires e \<le> now + 60)"
  proof -
    from miss have "c i = None \<or> (\<exists>e. c i = Some e \<and> \<not> expires e > now + 60)" by auto
    then show ?thesis by (rule token_fresh)
  qed
  have origin: "(\<exists>e. c i = Some e \<and> expires e - now \<ge> 60 \<and> t = token e
               \<and> snd (get_installation_token c i now resp now') = (c, []))
          \<or> (resp = Inr t
              \<and> snd (get_installation_token c i now resp now')
                  = (c(i \<mapsto> \<lparr>token = t, expires = now' + 50 * 60\<rparr>), [TokenExchange i]))"
    if ok: "fst (get_installation_token c i now resp now') = Inr t" for t
  proof (cases "\<exists>e. c i = Some e \<and> expires e > now + 60")
    case True
    then obtain e where e: "c i = Some e" "expires e > now + 60" by blast
    from served [of e] e
    have r: "get_installation_token c i now resp now' = (Inr (token e), c, [])" by simp
    with ok have "t = token e" by simp
    with e r show ?thesis by simp
  next
    case False
    then have "c i = None \<or> (\<exists>e. c i = Some e \<and> expires e \<le> now + 60)"
      by (cases "c i") auto
    from exchanged [OF this] ok show ?thesis
      by (cases resp) simp_all
  qed
  show ?thesis using hit fresh served exchanged origin by blast
qed

theorem cached_token_has_margin_witness:
  "(empty_token_cache(7 \<mapsto> \<lparr>token = ''old'', expires = 100\<rparr>)) 7
      = Some \<lparr>token = ''old'', expires = 100\<rparr>
   \<and> expires \<lparr>token = ''old'', expires = 100\<rparr> - 50 < 60
   \<and> get_installation_token (empty_token_cache(7 \<mapsto> \<lparr>token = ''old'', expires = 100\<rparr>))
        7 50 (Inr ''new'') 51
      = (Inr ''new'', (empty_token_cache(7 \<mapsto> \<lparr>token = ''old'', expires = 100\<rparr>))
           (7 \<mapsto> \<lparr>token = ''new'', expires = 51 + 50 * 60\<rparr>), [TokenExchange 7])
   \<and> snd (snd (get_installation_token
        (empty_token_cache(7 \<mapsto> \<lparr>token = ''old'', expires = 100\<rparr>)) 7 30 (Inr ''new'') 31))
      = []
   \<and> get_installation_token (empty_token_cache(7 \<mapsto> \<lparr>token = ''old'', expires = 100\<rparr>))
        7 30 (Inr ''new'') 31
      = (Inr ''old'', empty_token_cache(7 \<mapsto> \<lparr>token = ''old'', expires = 100\<rparr>), [])
   \<and> get_installation_token (empty_token_cache(7 \<mapsto> \<lparr>token = ''old'', expires = 100\<rparr>))
        7 5000 (Inl HTTPError) 5001
      = (Inl HTTPError, empty_token_cache(7 \<mapsto> \<lparr>token = ''old'', expires = 100\<rparr>),
         [TokenExchange 7])
   \<and> get_installation_token (empty_token_cache(7 \<mapsto> \<lparr>token = ''old'', expires = 100\<rparr>))
        7 40 (Inl HTTPError) 41
      = (Inl HTTPError, empty_token_cache(7 \<mapsto> \<lparr>token = ''old'', expires = 100\<rparr>),
         [TokenExchange 7])"
proof -
  let ?e = "\<lparr>token = ''old'', expires = 100\<rparr>"
  let ?c = "empty_token_cache(7 \<mapsto> ?e)"
  have look: "?c 7 = Some ?e" by simp
  have low: "expires ?e - 50 < 60" by simp
  have stale: "expires ?e \<le> 5000 + 60" by simp
  have edge: "expires ?e \<le> 40 + 60" by simp
  have quiet: "snd (snd (get_installation_token ?c 7 30 (Inr ''new'') 31)) = []"
    by (simp add: get_installation_token_def Let_def)
  from cached_token_has_margin [of ?c 7 50 "Inr ''new''" 51] look low
  have fresh: "get_installation_token ?c 7 50 (Inr ''new'') 51
      = (Inr ''new'', ?c(7 \<mapsto> \<lparr>token = ''new'', expires = 51 + 50 * 60\<rparr>), [TokenExchange 7])"
    by blast
  from cached_token_has_margin [of ?c 7 30 "Inr ''new''" 31] quiet look
  have hit: "get_installation_token ?c 7 30 (Inr ''new'') 31 = (Inr ''old'', ?c, [])"
    by auto
  have miss1: "?c 7 = None \<or> (\<exists>e. ?c 7 = Some e \<and> expires e \<le> 5000 + 60)"
    using look stale by blast
  from cached_token_has_margin [of ?c 7 5000 "Inl HTTPError" 5001] miss1
  have failed: "get_installation_token ?c 7 5000 (Inl HTTPError) 5001
      = (Inl HTTPError, ?c, [TokenExchange 7])"
    by simp
  have miss2: "?c 7 = None \<or> (\<exists>e. ?c 7 = Some e \<and> expires e \<le> 40 + 60)"
    using look edge by blast
  from cached_token_has_margin [of ?c 7 40 "Inl HTTPError" 41] miss2
  have failed_edge: "get_installation_token ?c 7 40 (Inl HTTPError) 41
      = (Inl HTTPError, ?c, [TokenExchange 7])"
    by simp
  show ?thesis using look low quiet fresh hit failed failed_edge by blast
qed

text \<open>
  C4, as stated, fails: a first call at time 0 stores its token with expiry 3000; a second
  call 2950 seconds later, within 50 minutes, finds less than 60 seconds left and exchanges
  again, so two calls within 50 minutes made two exchanges.
\<close>

theorem two_calls_within_50_minutes_counterexample:
  "(2950 :: real) - 0 \<le> 50 * 60
   \<and> snd (run_calls empty_token_cache 7 [(0, Inr ''a'', 0), (2950, Inr ''b'', 2950)])
       = [TokenExchange 7, TokenExchange 7]"
  by (simp add: get_installation_token_def empty_token_cache_def Let_def)

text \<open>
  C4, amended. For an installation without a cache entry, two calls make exactly one token
  exchange when the first exchange succeeds and the second call reads the clock less than
  49 minutes (2940 seconds) after the first call stored its token: the entry lives 50
  minutes and is served only while more than 60 seconds of them remain. A call made when
  the cached entry has expired always makes an exchange.
\<close>

theorem two_calls_one_exchange:
  "(c i = None \<and> t2 < s + 49 * 60 \<longrightarrow>
      snd (run_calls c i [(t1, Inr tok, s), (t2, resp2, s2)]) = [TokenExchange i])
   \<and> (c i = Some e \<and> expires e \<le> t \<longrightarrow>
        snd (snd (get_installation_token c i t resp t')) = [TokenExchange i])"
proof -
  have one: "snd (run_calls c i [(t1, Inr tok, s), (t2, resp2, s2)]) = [TokenExchange i]"
    if h: "c i = None \<and> t2 < s + 49 * 60"
  proof -
    let ?e = "\<lparr>token = tok, expires = s + 50 * 60\<rparr>"
    let ?c1 = "c(i \<mapsto> ?e)"
    from h have first: "get_installation_token c i t1 (Inr tok) s =
        (Inr tok, ?c1, [TokenExchange i])"
      using token_fresh [of c i t1 "Inr tok" s] by simp
    have "expires ?e > t2 + 60" using h by simp
    then have second: "get_installation_token ?c1 i t2 resp2 s2 = (Inr tok, ?c1, [])"
      using token_cached [of ?c1 i ?e t2 resp2 s2] by simp
    show ?thesis using first second by simp
  qed
  have again: "snd (snd (get_installation_token c i t resp t')) = [TokenExchange i]"
    if h: "c i = Some e \<and> expires e \<le> t"
  proof -
    from h have "c i = None \<or> (\<exists>e. c i = Some e \<and> \<not> expires e > t + 60)" by auto
    with token_fresh [of c i t resp t'] show ?thesis
      by (simp split: sum.splits)
  qed
  show ?thesis using one again by blast
qed

theorem two_calls_one_exchange_witness:
  "empty_token_cache 7 = None \<and> (2000 :: real) < 0 + 49 * 60
   \<and> snd (run_calls empty_token_cache 7 [(0, Inr ''a'', 0), (2000, Inr ''b'', 2000)])
       = [TokenExchange 7]
   \<and> (empty_token_cache(7 \<mapsto> \<lparr>token = ''a'', expires = 3000\<rparr>)) 7
       = Some \<lparr>token = ''a'', expires = 3000\<rparr>
   \<and> expires \<lparr>token = ''a'', expires = 3000\<rparr> \<le> 3001
   \<and> snd (snd (get_installation_token
        (empty_token_cache(7 \<mapsto> \<lparr>token = ''a'', expires = 3000\<rparr>)) 7 3001 (Inr ''b'') 3001))
       = [TokenExchange 7]"
proof -
  let ?e = "\<lparr>token = ''a'', expires = 3000\<rparr>"
  have a: "empty_token_cache 7 = None" by (simp add: empty_token_cache_def)
  have b: "(2000 :: real) < 0 + 49 * 60" by simp
  have c: "(empty_token_cache(7 \<mapsto> ?e)) 7 = Some ?e" by simp
  have d: "expires ?e \<le> 3001" by simp
  from two_calls_one_exchange
    [of empty_token_cache 7 2000 0 0 "''a''" "Inr ''b''" 2000 ?e 3001 "Inr ''b''" 3001]
    a b
  have one: "snd (run_calls empty_token_cache 7 [(0, Inr ''a'', 0), (2000, Inr ''b'', 2000)])
       = [TokenExchange 7]"
    by blast
  from two_calls_one_exchange
    [of "empty_token_cache(7 \<mapsto> ?e)" 7 0 0 0 "''a''" "Inr ''b''" 0 ?e 3001 "Inr ''b''" 3001]
    c d
  have two: "snd (snd (get_installation_token (empty_token_cache(7 \<mapsto> ?e)) 7 3001
       (Inr ''b'') 3001)) = [TokenExchange 7]"
    by blast
  show ?thesis using a b c d one two by blast
qed

subsection \<open>Issue comments\<close>

lemma parse_command_None:
  "parse_command body = None \<longleftrightarrow> (\<forall>cmd \<in> set COMMANDS. \<not> contains (lower body) cmd)"
  by (auto simp: parse_command_def find_None_iff)

text \<open>
  C8. An issue-comment "created" event whose lower-cased body contains none of the six
  command tokens ends the handler with an empty trace of outbound calls: no token
  exchange, no repository read, no assistant call, no comment post; no exception escapes
  and the token cache is unchanged.
\<close>

theorem no_command_no_outbound_call:
  "ce_action ev = Some ''created''
   \<and> (\<forall>cmd \<in> set COMMANDS. \<not> contains (lower (ce_body ev)) cmd)
   \<longrightarrow> handle_issue_comment w c ev = (None, c, [])"
proof
  assume h: "ce_action ev = Some ''created''
             \<and> (\<forall>cmd \<in> set COMMANDS. \<not> contains (lower (ce_body ev)) cmd)"
  then have "parse_command (ce_body ev) = None" using parse_command_None by blast
  then show "handle_issue_comment w c ev = (None, c, [])"
    by (simp add: handle_issue_comment_def)
qed

theorem no_command_no_outbound_call_witness:
  "parse_command ''Thanks, looks good to me'' = None
   \<and> handle_issue_comment (answering ''{}'') empty_token_cache
        \<lparr>ce_action = Some ''created'', ce_body = ''Thanks, looks good to me'',
         ce_author = ''alice'', ce_repo = ''o/r'', ce_issue_number = 5,
         ce_installation = 7\<rparr>
       = (None, empty_token_cache, [])"
proof -
  let ?ev = "\<lparr>ce_action = Some ''created'', ce_body = ''Thanks, looks good to me'',
       ce_author = ''alice'', ce_repo = ''o/r'', ce_issue_number = 5,
       ce_installation = 7\<rparr>"
  have a: "ce_action ?ev = Some ''created''" by simp
  have b: "\<forall>cmd \<in> set COMMANDS. \<not> contains (lower (ce_body ?ev)) cmd"
    by code_simp
  have n: "parse_command ''Thanks, looks good to me'' = None" by code_simp
  from no_command_no_outbound_call [of ?ev "answering ''{}''" empty_token_cache] a b n
  show ?thesis by blast
qed

subsection \<open>Assistant client\<close>

lemma extract_json_no_open:
  assumes "CHR ''{'' \<notin> set text"
  shows "extract_json text = None"
proof -
  have d: "dropWhile (\<lambda>c. c \<noteq> CHR ''{'') text = []"
    using assms by (auto simp: dropWhile_eq_Nil_conv)
  show ?thesis unfolding extract_json_def d by simp
qed

lemma groq_ask_parse_fallback:
  "CHR ''{'' \<notin> set text \<Longrightarrow> groq_ask_parse text = Inr [(''raw'', JString text)]"
  by (simp add: groq_ask_parse_def extract_json_no_open)

lemma groq_ask_parse_example:
  "groq_ask_parse ''prefix { \"a\": 1 } suffix'' = Inr [(''a'', JInt 1)]"
  by code_simp

text \<open>
  C1 fails on the code. The response text \<open>{"a": 1} {"b": 2}\<close> contains a
  brace-delimited JSON object, and its first one is \<open>{"a": 1}\<close>; the pattern
  \<open>\{[\s\S]*\}\<close> is greedy and takes the text from the first opening brace to the last
  closing brace, \<open>json.loads\<close> rejects that ("extra data"), and nothing catches the
  exception: \<open>groq_ask\<close> raises on a parse failure.
\<close>

theorem groq_ask_parse_raises_on_second_object:
  "extract_json ''{\"a\": 1} {\"b\": 2}'' = Some ''{\"a\": 1} {\"b\": 2}''
   \<and> json_loads ''{\"a\": 1}'' = Inr (JObject [(''a'', JInt 1)])
   \<and> groq_ask_parse ''{\"a\": 1} {\"b\": 2}'' = Inl JSONDecodeError
   \<and> groq_ask (answering ''{\"a\": 1} {\"b\": 2}'') FixPrompt = Inl JSONDecodeError"
  by code_simp

subsection \<open>Webhook gateway\<close>

lemma hex_digit_ascii: "n < 16 \<Longrightarrow> (of_char (hex_digit n) :: nat) < 128"
  by (auto simp: hex_digit_def)

lemma is_ascii_hexdigest: "is_ascii (hexdigest bs)"
proof -
  have "unat b div 16 < 16 \<and> unat b mod 16 < 16" for b :: byte
  proof -
    have "unat b < 256" using unsigned_less [of b] by simp
    then show ?thesis by auto
  qed
  then show ?thesis
    by (induction bs) (simp_all add: is_ascii_def hexdigest_def hex_digit_ascii)
qed

lemma is_ascii_expected: "is_ascii (expected_signature secret payload)"
  using is_ascii_hexdigest [of "hmac_sha256 secret payload"]
  by (simp add: expected_signature_def is_ascii_def)

lemma verify_signature_accepts:
  "verify_signature secret payload (Some (expected_signature secret payload)) = Inr True"
  by (simp add: verify_signature_def compare_digest_def is_ascii_expected)

lemma verify_signature_rejects_ascii:
  "secret \<noteq> [] \<Longrightarrow> is_ascii s \<Longrightarrow> s \<noteq> expected_signature secret payload \<Longrightarrow>
     verify_signature secret payload (Some s) = Inr False"
  by (auto simp: verify_signature_def compare_digest_def is_ascii_expected)

lemma verify_signature_raises:
  "secret \<noteq> [] \<Longrightarrow> \<not> is_ascii s \<Longrightarrow>
     verify_signature secret payload (Some s) = Inl TypeError"
  by (simp add: verify_signature_def compare_digest_def)

lemma verify_signature_missing_header:
  "secret \<noteq> [] \<Longrightarrow> verify_signature secret payload None = Inr False
     \<and> verify_signature secret payload (Some []) = Inr False"
  by (simp add: verify_signature_def compare_digest_def is_ascii_expected)
     (simp add: expected_signature_def is_ascii_def)

lemma webhook_missing_header_401:
  "secret \<noteq> [] \<Longrightarrow>
     webhook secret \<lparr>sig_header = None, event_header = ev, data = body\<rparr> get_json run
       = (401, [])"
  using verify_signature_missing_header [of secret body]
  by (simp add: webhook_def)

lemma webhook_ascii_mismatch_401:
  "secret \<noteq> [] \<Longrightarrow> is_ascii s \<Longrightarrow> s \<noteq> expected_signature secret body \<Longrightarrow>
     webhook secret \<lparr>sig_header = Some s, event_header = ev, data = body\<rparr> get_json run
       = (401, [])"
  using verify_signature_rejects_ascii [of secret s body]
  by (simp add: webhook_def)

lemma flipped_first_char:
  "flip_header_bit 0 7 (expected_signature secret payload)
     = char_of (243 :: nat) # ''ha256='' @ hexdigest (hmac_sha256 secret payload)"
  by (simp add: flip_header_bit_def expected_signature_def flip_bit_eq_xor)

text \<open>
  C2 fails on the code. With the secret "s" and an empty body, take the valid header
  \<open>sha256=<hex HMAC>\<close> and flip the top bit of its first character: the header is no
  longer ASCII, \<open>hmac.compare_digest\<close> raises \<open>TypeError\<close> outside any \<open>try\<close>, and the
  request is answered with status 500, not 401 (no handler is invoked). The unmutated
  header is accepted and the push handler is invoked.
\<close>

theorem webhook_header_high_bit_flip_is_500:
  "webhook [0x73]
      \<lparr>sig_header = Some (flip_header_bit 0 7 (expected_signature [0x73] [])),
       event_header = Some ''push'', data = []\<rparr> get_json run
     = (500, [])
   \<and> webhook [0x73]
      \<lparr>sig_header = Some (expected_signature [0x73] []),
       event_header = Some ''push'', data = []\<rparr> (\<lambda>b. Some (JObject [])) (\<lambda>h p. None)
     = (200, [HandlePush])"
proof -
  have "\<not> is_ascii (flip_header_bit 0 7 (expected_signature [0x73] []))"
    by (simp add: flipped_first_char is_ascii_def)
  then have bad: "verify_signature [0x73] []
       (Some (flip_header_bit 0 7 (expected_signature [0x73] []))) = Inl TypeError"
    by (simp add: verify_signature_raises)
  have good: "verify_signature [0x73] [] (Some (expected_signature [0x73] [])) = Inr True"
    by (rule verify_signature_accepts)
  show ?thesis
    using bad good by (simp add: webhook_def sub_dict_def dget_default_def route_def)
qed

text \<open>
  C10 fails on the code. For the non-empty secret "s", the header value consisting of the
  one character U+00E9 makes \<open>verify_signature\<close> raise \<open>TypeError\<close>: an exception
  escapes signature verification, and the endpoint answers 500.
\<close>

theorem verify_signature_raises_on_non_ascii_header:
  "verify_signature [0x73] [] (Some [CHR 0xE9]) = Inl TypeError
   \<and> webhook [0x73] \<lparr>sig_header = Some [CHR 0xE9], event_header = Some ''ping'',
        data = []\<rparr> get_json run = (500, [])"
proof -
  have "verify_signature [0x73] [] (Some [CHR 0xE9]) = Inl TypeError"
    by (simp add: verify_signature_raises is_ascii_def)
  then show ?thesis by (simp add: webhook_def)
qed

subsection \<open>Code review pass\<close>

lemma ask_reviews_trace: "\<forall>x \<in> set (snd (ask_reviews w k fs)). is_ask x"
proof (induction fs arbitrary: k)
  case Nil
  then show ?case by simp
next
  case (Cons f fs)
  have "\<forall>x \<in> set (snd (ask_reviews w (Suc k) fs)). is_ask x" by (rule Cons.IH)
  then show ?case
    by (cases "ask_reviews w (Suc k) fs") (auto split: sum.splits)
qed



lemma run_code_review_trace_no_patch:
  "\<forall>x \<in> set (snd (run_code_review w repo n files)). \<not> is_patch x"
proof (cases "reviewable_files files = []")
  case True
  then show ?thesis by (simp add: run_code_review_def)
next
  case False
  have ask_not_patch: "\<not> is_patch x" if "is_ask x" for x using that by (cases x) simp_all
  obtain r tr where rt: "ask_reviews w 0 (reviewable_files files) = (r, tr)"
    by (cases "ask_reviews w 0 (reviewable_files files)")
  have trq: "\<forall>x \<in> set tr. \<not> is_patch x"
    using ask_reviews_trace [of w 0 "reviewable_files files"] rt ask_not_patch by auto
  show ?thesis
    using rt False trq
    by (auto simp: run_code_review_def split: sum.splits prod.splits)
qed










subsection \<open>Pull requests\<close>

lemma token_for_trace_no_patch:
  "\<forall>x \<in> set (snd (snd (token_for w c i))). \<not> is_patch x"
  using token_trace_cases [of c i "clock_check w" "exchange w i" "clock_store w"]
  by (auto simp: token_for_def)

lemma ensure_labels_no_patch: "filter is_patch (ensure_labels repo) = []"
  by (simp add: ensure_labels_def filter_map comp_def)

lemma filter_none: "(\<forall>x \<in> set xs. \<not> P x) \<Longrightarrow> filter P xs = []"
  by (induction xs) auto

lemma pr_patch_calls:
  assumes act: "pe_action ev = Some ''opened'' \<or> pe_action ev = Some ''reopened''"
    and auth: "pe_author ev \<notin> set SKIP_AUTHORS"
    and tok: "fst (token_for w c (pe_installation ev)) = Inr tok"
    and ask: "groq_ask w AnalyzePR = Inr result"
  shows "filter is_patch (snd (snd (handle_pull_request w c ev)))
           = (if patch_data (pe_title ev) (pr_body ev) result \<noteq> []
              then [GhPatch (EpPull (pe_repo ev) (pe_number ev))
                      (patch_data (pe_title ev) (pr_body ev) result)]
              else [])"
proof -
  obtain c' tr where tf: "token_for w c (pe_installation ev) = (Inr tok, c', tr)"
    using tok by (cases "token_for w c (pe_installation ev)") auto
  have tr0: "filter is_patch tr = []"
    using token_for_trace_no_patch [of w c "pe_installation ev"] tf
    by (simp add: filter_none)
  have rv: "filter is_patch (snd (run_code_review w (pe_repo ev) (pe_number ev) files)) = []"
    for files
    using run_code_review_trace_no_patch [of w "pe_repo ev" "pe_number ev" files]
    by (simp add: filter_none)
  have rv': "run_code_review w (pe_repo ev) (pe_number ev) files = (r, tr4)
               \<Longrightarrow> filter is_patch tr4 = []" for files r tr4
    using rv [of files] by simp
  show ?thesis
    using act auth tf ask tr0 rv'
    by (auto simp: handle_pull_request_def Let_def ensure_labels_no_patch
             split: sum.splits option.splits prod.splits)
qed

lemma patch_data_nonempty:
  "patch_data title body result \<noteq> [] \<longleftrightarrow>
     (body = [] \<or> length (strip body) < 30)
     \<or> (get_truthy result ''improved_title''
         \<and> dget result ''improved_title'' \<noteq> Some (JString title))"
  by (simp add: patch_data_def)

lemma patch_data_keys:
  "(''body'' \<in> fst ` set (patch_data title body result)
      \<longleftrightarrow> body = [] \<or> length (strip body) < 30)
   \<and> (''title'' \<in> fst ` set (patch_data title body result)
      \<longleftrightarrow> get_truthy result ''improved_title''
          \<and> dget result ''improved_title'' \<noteq> Some (JString title))"
  by (auto simp: patch_data_def)

text \<open>
  C5, as stated, fails: a pull request whose body is "x" followed by 29 spaces (30
  characters, not empty) and whose suggested title equals the current title still gets
  its body patched, because the test is on the stripped body.
\<close>

theorem pr_patch_claim_counterexample:
  "pe_action \<lparr>pe_action = Some ''opened'', pe_repo = ''o/r'', pe_number = 1,
       pe_author = ''alice'', pe_title = ''T'',
       pe_body = Some (''x'' @ replicate 29 (CHR '' '')), pe_installation = 7\<rparr>
     = Some ''opened''
   \<and> ''alice'' \<notin> set SKIP_AUTHORS
   \<and> length (''x'' @ replicate 29 (CHR '' '')) = 30
   \<and> groq_ask (answering ''{\"improved_title\": \"T\", \"description\": \"D\"}'') AnalyzePR
       = Inr [(''improved_title'', JString ''T''), (''description'', JString ''D'')]
   \<and> GhPatch (EpPull ''o/r'' 1) [(''body'', JString ''D'')]
       \<in> set (snd (snd (handle_pull_request
             (answering ''{\"improved_title\": \"T\", \"description\": \"D\"}'')
             empty_token_cache
             \<lparr>pe_action = Some ''opened'', pe_repo = ''o/r'', pe_number = 1,
              pe_author = ''alice'', pe_title = ''T'',
              pe_body = Some (''x'' @ replicate 29 (CHR '' '')), pe_installation = 7\<rparr>)))"
  by code_simp

text \<open>
  C5, amended. For an "opened" or "reopened" event of a non-excluded author, when the
  token and the assistant's analysis are obtained: the handler sends the PATCH request if
  and only if the body is empty or shorter than 30 characters once stripped of white
  space, or the analysis has a non-empty (truthy) \<open>improved_title\<close> that differs from the
  current title. It sends at most that one PATCH; its dictionary has the key "body"
  exactly in the first case and the key "title" exactly in the second, so a patch of the
  title alone carries no body and leaves the existing body as it is.
\<close>

theorem pr_patch_condition:
  "(pe_action ev = Some ''opened'' \<or> pe_action ev = Some ''reopened'')
   \<and> pe_author ev \<notin> set SKIP_AUTHORS
   \<and> fst (token_for w c (pe_installation ev)) = Inr tok
   \<and> groq_ask w AnalyzePR = Inr result
   \<longrightarrow>
     ((\<exists>d. GhPatch (EpPull (pe_repo ev) (pe_number ev)) d
             \<in> set (snd (snd (handle_pull_request w c ev))))
        \<longleftrightarrow> (pr_body ev = [] \<or> length (strip (pr_body ev)) < 30)
            \<or> (get_truthy result ''improved_title''
                \<and> dget result ''improved_title'' \<noteq> Some (JString (pe_title ev))))
     \<and> (\<forall>ep d. GhPatch ep d \<in> set (snd (snd (handle_pull_request w c ev)))
           \<longrightarrow> ep = EpPull (pe_repo ev) (pe_number ev)
               \<and> d = patch_data (pe_title ev) (pr_body ev) result)
     \<and> (''body'' \<in> fst ` set (patch_data (pe_title ev) (pr_body ev) result)
           \<longleftrightarrow> pr_body ev = [] \<or> length (strip (pr_body ev)) < 30)
     \<and> (''title'' \<in> fst ` set (patch_data (pe_title ev) (pr_body ev) result)
           \<longleftrightarrow> get_truthy result ''improved_title''
               \<and> dget result ''improved_title'' \<noteq> Some (JString (pe_title ev)))"
proof (rule impI)
  assume h: "(pe_action ev = Some ''opened'' \<or> pe_action ev = Some ''reopened'')
   \<and> pe_author ev \<notin> set SKIP_AUTHORS
   \<and> fst (token_for w c (pe_installation ev)) = Inr tok
   \<and> groq_ask w AnalyzePR = Inr result"
  let ?tr = "snd (snd (handle_pull_request w c ev))"
  let ?pd = "patch_data (pe_title ev) (pr_body ev) result"
  let ?ep = "EpPull (pe_repo ev) (pe_number ev)"
  from h have calls: "filter is_patch ?tr = (if ?pd \<noteq> [] then [GhPatch ?ep ?pd] else [])"
    using pr_patch_calls [of ev w c tok result] by blast
  have mem: "GhPatch ep d \<in> set ?tr \<longleftrightarrow> GhPatch ep d \<in> set (filter is_patch ?tr)" for ep d
    by simp
  have only: "GhPatch ep d \<in> set ?tr \<longleftrightarrow> ?pd \<noteq> [] \<and> ep = ?ep \<and> d = ?pd" for ep d
    unfolding mem calls by auto
  have a: "(\<exists>d. GhPatch ?ep d \<in> set ?tr) \<longleftrightarrow> ?pd \<noteq> []"
    using only by blast
  have b: "\<forall>ep d. GhPatch ep d \<in> set ?tr \<longrightarrow> ep = ?ep \<and> d = ?pd"
    using only by blast
  show "((\<exists>d. GhPatch ?ep d \<in> set ?tr)
        \<longleftrightarrow> (pr_body ev = [] \<or> length (strip (pr_body ev)) < 30)
            \<or> (get_truthy result ''improved_title''
                \<and> dget result ''improved_title'' \<noteq> Some (JString (pe_title ev))))
     \<and> (\<forall>ep d. GhPatch ep d \<in> set ?tr \<longrightarrow> ep = ?ep \<and> d = ?pd)
     \<and> (''body'' \<in> fst ` set ?pd
           \<longleftrightarrow> pr_body ev = [] \<or> length (strip (pr_body ev)) < 30)
     \<and> (''title'' \<in> fst ` set ?pd
           \<longleftrightarrow> get_truthy result ''improved_title''
               \<and> dget result ''improved_title'' \<noteq> Some (JString (pe_title ev)))"
    using a b patch_data_nonempty [of "pe_title ev" "pr_body ev" result]
      patch_data_keys [of "pe_title ev" "pr_body ev" result]
    by blast
qed

theorem pr_patch_condition_witness:
  "(\<exists>d. GhPatch (EpPull ''o/r'' 1) d
        \<in> set (snd (snd (handle_pull_request
             (answering ''{\"improved_title\": \"feat: add x\"}'') empty_token_cache
             \<lparr>pe_action = Some ''opened'', pe_repo = ''o/r'', pe_number = 1,
              pe_author = ''alice'', pe_title = ''T'',
              pe_body = Some (replicate 40 (CHR ''b'')), pe_installation = 7\<rparr>))))
   \<and> ''body'' \<notin> fst ` set (patch_data ''T'' (replicate 40 (CHR ''b''))
                               [(''improved_title'', JString ''feat: add x'')])
   \<and> ''title'' \<in> fst ` set (patch_data ''T'' (replicate 40 (CHR ''b''))
                               [(''improved_title'', JString ''feat: add x'')])"
proof -
  let ?w = "answering ''{\"improved_title\": \"feat: add x\"}''"
  let ?ev = "\<lparr>pe_action = Some ''opened'', pe_repo = ''o/r'', pe_number = 1,
              pe_author = ''alice'', pe_title = ''T'',
              pe_body = Some (replicate 40 (CHR ''b'')), pe_installation = 7\<rparr>"
  let ?res = "[(''improved_title'', JString ''feat: add x'')]"
  have h1: "pe_action ?ev = Some ''opened'' \<or> pe_action ?ev = Some ''reopened''" by simp
  have h2: "pe_author ?ev \<notin> set SKIP_AUTHORS" by code_simp
  have h3: "fst (token_for ?w empty_token_cache (pe_installation ?ev)) = Inr ''tok''"
    by code_simp
  have h4: "groq_ask ?w AnalyzePR = Inr ?res" by code_simp
  have t: "get_truthy ?res ''improved_title''
           \<and> dget ?res ''improved_title'' \<noteq> Some (JString (pe_title ?ev))"
    by code_simp
  have b: "\<not> (pr_body ?ev = [] \<or> length (strip (pr_body ?ev)) < 30)" by code_simp
  have e1: "pe_repo ?ev = ''o/r''" and e2: "pe_number ?ev = 1" and e3: "pe_title ?ev = ''T''"
    and e4: "pr_body ?ev = replicate 40 (CHR ''b'')"
    by (simp_all add: pr_body_def)
  from pr_patch_condition [of ?ev ?w empty_token_cache "''tok''" ?res] h1 h2 h3 h4 t b
  show ?thesis unfolding e1 e2 e3 e4 by blast
qed

subsection \<open>Pushes\<close>

lemma endswith_contains: "endswith s p \<Longrightarrow> contains s p"
proof -
  assume "endswith s p"
  then have "s = take (length s - length p) s @ p @ []"
    by (simp add: endswith_def) (metis append_take_drop_id)
  then show ?thesis unfolding contains_iff by blast
qed

lemma token_for_trace_no_post:
  "filter is_post (snd (snd (token_for w c i))) = []"
  using token_trace_cases [of c i "clock_check w" "exchange w i" "clock_store w"]
  by (auto simp: token_for_def)

lemma handle_push_posts:
  "filter is_post (snd (snd (handle_push w c ev))) = []
   \<or> (3 \<le> length (bad_commits (pu_commits ev))
       \<and> filter is_post (snd (snd (handle_push w c ev)))
           = [GhPost (EpIssues (pu_repo ev))
                (AlertIssue (length (bad_commits (pu_commits ev))))])"
proof -
  have "filter is_post tr = []"
    if "token_for w c i = (r, c', tr)" for i r c' tr
    using token_for_trace_no_post [of w c i] that by simp
  then show ?thesis
    by (auto simp: handle_push_def Let_def split: option.splits sum.splits prod.splits)
qed

text \<open>
  C6, as stated, fails: a push to refs/heads/main with three non-conventional commits but
  without an installation id in the payload ends at \<open>if not installation_id: return\<close>;
  no issue is opened, no call is made.
\<close>

theorem push_claim_counterexample:
  "endswith ''refs/heads/main'' ''/main''
   \<and> length (bad_commits
        [\<lparr>commit_id = ''a1'', message = ''wip''\<rparr>,
         \<lparr>commit_id = ''b2'', message = ''more stuff''\<rparr>,
         \<lparr>commit_id = ''c3'', message = ''Fixed it''\<rparr>]) = 3
   \<and> snd (snd (handle_push (answering ''{}'') empty_token_cache
        \<lparr>pu_ref = ''refs/heads/main'',
         pu_commits = [\<lparr>commit_id = ''a1'', message = ''wip''\<rparr>,
                       \<lparr>commit_id = ''b2'', message = ''more stuff''\<rparr>,
                       \<lparr>commit_id = ''c3'', message = ''Fixed it''\<rparr>],
         pu_repo = ''o/r'', pu_installation = None\<rparr>)) = []"
  by code_simp

text \<open>
  C6, amended. For a push that carries a (non-zero) installation id and for which the
  installation token is obtained: if the ref ends in "/main" or "/master", the handler
  issues the request that opens the alert issue exactly once when at least 3 of the first
  10 commits are non-conventional and not merge commits, and not at all otherwise, and no
  exception escapes. For every push, exactly 2 such commits never lead to that request.
  A push whose ref contains neither "/main" nor "/master", and a push without
  installation id, produce no action at all.
\<close>

theorem push_alert_condition:
  "(pu_installation ev = Some i \<and> i \<noteq> 0 \<and> fst (token_for w c i) = Inr tok
      \<and> (endswith (pu_ref ev) ''/main'' \<or> endswith (pu_ref ev) ''/master'')
    \<longrightarrow> filter is_post (snd (snd (handle_push w c ev)))
          = (if 3 \<le> length (bad_commits (pu_commits ev))
             then [GhPost (EpIssues (pu_repo ev))
                     (AlertIssue (length (bad_commits (pu_commits ev))))]
             else [])
        \<and> fst (handle_push w c ev) = None)
   \<and> (length (bad_commits (pu_commits ev)) = 2
        \<longrightarrow> filter is_post (snd (snd (handle_push w c ev))) = [])
   \<and> (\<not> contains (pu_ref ev) ''/main'' \<and> \<not> contains (pu_ref ev) ''/master''
        \<longrightarrow> handle_push w c ev = (None, c, []))
   \<and> (pu_installation ev = None \<or> pu_installation ev = Some 0
        \<longrightarrow> handle_push w c ev = (None, c, []))"
proof -
  have p1: "filter is_post (snd (snd (handle_push w c ev)))
          = (if 3 \<le> length (bad_commits (pu_commits ev))
             then [GhPost (EpIssues (pu_repo ev))
                     (AlertIssue (length (bad_commits (pu_commits ev))))]
             else [])
        \<and> fst (handle_push w c ev) = None"
    if h: "pu_installation ev = Some i \<and> i \<noteq> 0 \<and> fst (token_for w c i) = Inr tok
      \<and> (endswith (pu_ref ev) ''/main'' \<or> endswith (pu_ref ev) ''/master'')"
  proof -
    from h have ref: "contains (pu_ref ev) ''/main'' \<or> contains (pu_ref ev) ''/master''"
      using endswith_contains by blast
    obtain c' tr where tf: "token_for w c i = (Inr tok, c', tr)"
      using h by (cases "token_for w c i") auto
    have tr0: "filter is_post tr = []"
      using token_for_trace_no_post [of w c i] tf by simp
    show ?thesis
      using h ref tf tr0 by (auto simp: handle_push_def Let_def)
  qed
  have p2: "filter is_post (snd (snd (handle_push w c ev))) = []"
    if "length (bad_commits (pu_commits ev)) = 2"
    using handle_push_posts [of w c ev] that by auto
  have p3: "handle_push w c ev = (None, c, [])"
    if "\<not> contains (pu_ref ev) ''/main'' \<and> \<not> contains (pu_ref ev) ''/master''"
    using that by (simp add: handle_push_def)
  have p4: "handle_push w c ev = (None, c, [])"
    if "pu_installation ev = None \<or> pu_installation ev = Some 0"
    using that by (auto simp: handle_push_def)
  show ?thesis using p1 p2 p3 p4 by blast
qed

theorem push_alert_condition_witness:
  "filter is_post (snd (snd (handle_push (answering ''{}'') empty_token_cache
        \<lparr>pu_ref = ''refs/heads/main'',
         pu_commits = [\<lparr>commit_id = ''a1'', message = ''wip''\<rparr>,
                       \<lparr>commit_id = ''b2'', message = ''more stuff''\<rparr>,
                       \<lparr>commit_id = ''c3'', message = ''Fixed it''\<rparr>,
                       \<lparr>commit_id = ''d4'', message = ''feat(api): add x''\<rparr>],
         pu_repo = ''o/r'', pu_installation = Some 7\<rparr>)))
     = [GhPost (EpIssues ''o/r'') (AlertIssue 3)]"
proof -
  let ?w = "answering ''{}''"
  let ?cs = "[\<lparr>commit_id = ''a1'', message = ''wip''\<rparr>,
              \<lparr>commit_id = ''b2'', message = ''more stuff''\<rparr>,
              \<lparr>commit_id = ''c3'', message = ''Fixed it''\<rparr>,
              \<lparr>commit_id = ''d4'', message = ''feat(api): add x''\<rparr>]"
  let ?ev = "\<lparr>pu_ref = ''refs/heads/main'', pu_commits = ?cs, pu_repo = ''o/r'',
              pu_installation = Some 7\<rparr>"
  have h1: "pu_installation ?ev = Some 7 \<and> (7 :: int) \<noteq> 0" by simp
  have h2: "fst (token_for ?w empty_token_cache 7) = Inr ''tok''" by code_simp
  have h3: "endswith (pu_ref ?ev) ''/main''" by code_simp
  have n: "length (bad_commits (pu_commits ?ev)) = 3" by code_simp
  have e: "pu_repo ?ev = ''o/r''" by simp
  from push_alert_condition [of ?ev 7 ?w empty_token_cache "''tok''"] h1 h2 h3
  have "filter is_post (snd (snd (handle_push ?w empty_token_cache ?ev)))
          = (if 3 \<le> length (bad_commits (pu_commits ?ev))
             then [GhPost (EpIssues (pu_repo ?ev))
                     (AlertIssue (length (bad_commits (pu_commits ?ev))))]
             else [])"
    by blast
  then show ?thesis unfolding n e by simp
qed

end
